theory Spec2Isabelle
  imports Complex_Main "HOL-Library.Log_Nat"
begin

section \<open>Server-side drafts: validation pipeline and store operations\<close>

text \<open>
  A shallow embedding of \<^verbatim>\<open>zerver/lib/drafts.py\<close> and \<^verbatim>\<open>zerver/views/drafts.py\<close>.
  Exceptions are values of the type \<open>error\<close>; the database is an explicit state that
  every operation takes and returns; the collaborators that the two files import
  (truncation, stream and user lookup, recipient resolution, the clock, the request
  parser) are fields of an environment record.
\<close>

subsection \<open>Exceptions\<close>

datatype error =
    JsonableError string
  | DoesNotExist
  | MultipleObjectsReturned
  | IndexError
  | DatabaseError string
  | ValueError string
  | OverflowError string

text \<open>Django's \<^verbatim>\<open>ValidationError\<close>, with its list of messages.\<close>

datatype validation_error = ValidationError (messages: "string list")

subsection \<open>Data\<close>

type_synonym recipient = int
type_synonym subscription = int
type_synonym datetime = rat

text \<open>
  The user entity. Only the fields the two files read are named; every other column
  of the user lives in the extension part of the record.
\<close>

record user_profile =
  user_id :: int
  realm :: int
  enable_drafts_synchronization :: bool

record stream =
  stream_id :: int
  stream_recipient :: "recipient option"

text \<open>
  A Python number: an int, which is unbounded, or a float, given by the rational that a
  finite double denotes (the infinities and NaN have no counterpart here, and the sign
  of a zero is not kept: a comparison with 0 does not read it).
\<close>

datatype py_number = PyInt int | PyFloat rat

fun py_value :: "py_number \<Rightarrow> rat" where
  "py_value (PyInt i) = of_int i"
| "py_value (PyFloat x) = x"

text \<open>
  A draft dictionary that has passed \<^verbatim>\<open>draft_dict_validator\<close>: the keys and the types
  of their values are those of the validator (\<^verbatim>\<open>timestamp\<close> is the optional key). A
  timestamp is a Python number. A string is a list of bytes; the null character is the
  byte 0, which occurs in the UTF-8 form of a text exactly where the text has the
  character U+0000.
\<close>

record draft_dict =
  dd_type :: string
  dd_to :: "int list"
  dd_topic :: string
  dd_content :: string
  dd_timestamp :: "py_number option"

text \<open>The dictionary returned by \<^verbatim>\<open>further_validated_draft_dict\<close>.\<close>

record valid_draft_dict =
  vd_recipient :: "recipient option"
  vd_topic :: string
  vd_content :: string
  vd_last_edit_time :: datetime

text \<open>The fields of a \<^verbatim>\<open>Draft\<close> object; the owner is the foreign key to the user.\<close>

record draft =
  user_profile_id :: int
  recipient :: "recipient option"
  topic :: string
  content :: string
  last_edit_time :: datetime

text \<open>
  The database: the user table by primary key, the draft table as rows of primary key
  and fields, and the sequence that hands out draft ids.
\<close>

record 'a db =
  users :: "int \<rightharpoonup> 'a user_profile_scheme"
  drafts :: "(int \<times> draft) list"
  next_id :: int

record request =
  post_data :: "(string \<times> string) list"

datatype response_data =
    NoData
  | DraftList nat "(int \<times> draft) list"
  | DraftIds "int list"

datatype response =
    json_success response_data
  | json_error string nat

text \<open>
  The imported collaborators. Each of them may raise, the clock apart: \<open>time_time\<close> is
  the float that \<^verbatim>\<open>time.time()\<close> returns. \<open>REQ_drafts\<close> and \<open>REQ_draft\<close> stand for what
  \<^verbatim>\<open>has_request_variables\<close> does with the two \<^verbatim>\<open>REQ\<close> declarations of the views:
  extract the variable from the request and run its validator.
\<close>

record 'a env =
  truncate_body :: "string \<Rightarrow> string"
  truncate_topic :: "string \<Rightarrow> string"
  time_time :: rat
  timestamp_to_datetime :: "py_number \<Rightarrow> error + datetime"
  access_stream_by_id ::
    "'a user_profile_scheme \<Rightarrow> int \<Rightarrow> error + (stream \<times> subscription option)"
  get_user_profiles_by_ids ::
    "int set \<Rightarrow> int \<Rightarrow> error + 'a user_profile_scheme list"
  recipient_for_user_profiles ::
    "'a user_profile_scheme list \<Rightarrow> bool \<Rightarrow> 'a user_profile_scheme option \<Rightarrow>
       'a user_profile_scheme \<Rightarrow> validation_error + recipient"
  REQ_drafts :: "request \<Rightarrow> error + draft_dict list"
  REQ_draft :: "request \<Rightarrow> error + draft_dict"

subsection \<open>The structural validator\<close>

definition VALID_DRAFT_TYPES :: "string set" where
  "VALID_DRAFT_TYPES = {'''', ''private'', ''stream''}"

text \<open>
  Modelled from the spec: \<^verbatim>\<open>check_required_string\<close> of \<^verbatim>\<open>zerver.lib.validator\<close>, which
  is not among the sources. The specification asks for a content that is non-empty,
  whitespace not being stripped.
\<close>

definition check_required_string :: "string \<Rightarrow> bool" where
  "check_required_string s \<longleftrightarrow> s \<noteq> []"

text \<open>
  What \<^verbatim>\<open>draft_dict_validator\<close> still demands of a dictionary whose keys and value
  types are already those of \<open>draft_dict\<close>.
\<close>

definition draft_dict_validator :: "draft_dict \<Rightarrow> bool" where
  "draft_dict_validator d \<longleftrightarrow>
     dd_type d \<in> VALID_DRAFT_TYPES \<and> check_required_string (dd_content d)"

subsection \<open>Python's \<^verbatim>\<open>round(x, ndigits)\<close>\<close>

text \<open>
  On an int, and for \<open>ndigits\<close> of zero or more, \<^verbatim>\<open>round\<close> returns the int itself. On a
  float it rounds the exact value of the float to \<open>ndigits\<close> decimal places, ties to
  even, and returns the float nearest to that decimal, ties to the even significand
  (this is what CPython does for the \<open>ndigits\<close> between 0 and 323).
\<close>

definition round_half_even :: "rat \<Rightarrow> int" where
  "round_half_even y =
     (let f = \<lfloor>y\<rfloor>; r = y - of_int f
      in if r < 1 / 2 then f
         else if 1 / 2 < r then f + 1
         else if even f then f else f + 1)"

definition round_decimal :: "rat \<Rightarrow> nat \<Rightarrow> rat" where
  "round_decimal x ndigits = of_int (round_half_even (x * 10 ^ ndigits)) / 10 ^ ndigits"

text \<open>The exponent of the power of two at or below a positive rational.\<close>

definition log2_floor :: "rat \<Rightarrow> int" where
  "log2_floor x =
     (let (p, q) = quotient_of x; k = bitlen p - bitlen q
      in if power_int 2 k \<le> x then k else k - 1)"

text \<open>
  The double nearest to a rational: 53 bits of significand, exponents from -1022 on
  (below them the spacing of the subnormal numbers). The largest double is not
  enforced: rounding a double to decimal places never leads beyond it.
\<close>

definition nearest_double :: "rat \<Rightarrow> rat" where
  "nearest_double y =
     (if y = 0 then 0
      else let e = max (log2_floor \<bar>y\<bar>) (- 1022);
               ulp = power_int 2 (e - 52)
           in of_int (round_half_even (y / ulp)) * ulp)"

fun py_round :: "py_number \<Rightarrow> nat \<Rightarrow> py_number" where
  "py_round (PyInt i) ndigits = PyInt i"
| "py_round (PyFloat x) ndigits = PyFloat (nearest_double (round_decimal x ndigits))"

text \<open>
  The timestamp that \<^verbatim>\<open>further_validated_draft_dict\<close> derives: the value of the optional
  key, or the reading of the clock, rounded to six places; and its numeric value, which
  is what the comparison with 0 reads.
\<close>

abbreviation rounded_timestamp :: "'a env \<Rightarrow> draft_dict \<Rightarrow> py_number" where
  "rounded_timestamp env d \<equiv>
     py_round (case dd_timestamp d of Some t \<Rightarrow> t | None \<Rightarrow> PyFloat (time_time env)) 6"

abbreviation derived_timestamp :: "'a env \<Rightarrow> draft_dict \<Rightarrow> rat" where
  "derived_timestamp env d \<equiv> py_value (rounded_timestamp env d)"

subsection \<open>\<^verbatim>\<open>further_validated_draft_dict\<close>\<close>

definition further_validated_draft_dict ::
  "'a env \<Rightarrow> draft_dict \<Rightarrow> 'a user_profile_scheme \<Rightarrow> error + valid_draft_dict" where
  "further_validated_draft_dict env draft_dict user_profile =
     (let content' = truncate_body env (dd_content draft_dict) in
      if CHR 0x00 \<in> set content' then
        Inl (JsonableError ''Content must not contain null bytes'')
      else
        let timestamp = (case dd_timestamp draft_dict of
                           Some t \<Rightarrow> t | None \<Rightarrow> PyFloat (time_time env));
            timestamp' = py_round timestamp 6
        in
        if py_value timestamp' < 0 then
          Inl (JsonableError ''Timestamp must not be negative.'')
        else
          (case timestamp_to_datetime env timestamp' of
             Inl e \<Rightarrow> Inl e
           | Inr last_edit_time' \<Rightarrow>
               let to = dd_to draft_dict in
               if dd_type draft_dict = ''stream'' then
                 let topic' = truncate_topic env (dd_topic draft_dict) in
                 if CHR 0x00 \<in> set topic' then
                   Inl (JsonableError ''Topic must not contain null bytes'')
                 else if length to \<noteq> 1 then
                   Inl (JsonableError
                     ''Must specify exactly 1 stream ID for stream messages'')
                 else
                   (case access_stream_by_id env user_profile (to ! 0) of
                      Inl e \<Rightarrow> Inl e
                    | Inr (stream', sub) \<Rightarrow>
                        Inr \<lparr>vd_recipient = stream_recipient stream', vd_topic = topic',
                             vd_content = content',
                             vd_last_edit_time = last_edit_time'\<rparr>)
               else if dd_type draft_dict = ''private'' \<and> length to \<noteq> 0 then
                 (case get_user_profiles_by_ids env (set to) (realm user_profile) of
                    Inl e \<Rightarrow> Inl e
                  | Inr to_users \<Rightarrow>
                      (case recipient_for_user_profiles env to_users False None
                              user_profile of
                         Inl e \<Rightarrow>
                           (case messages e of
                              [] \<Rightarrow> Inl IndexError
                            | m # _ \<Rightarrow> Inl (JsonableError m))
                       | Inr r \<Rightarrow>
                           Inr \<lparr>vd_recipient = Some r, vd_topic = '''',
                                vd_content = content',
                                vd_last_edit_time = last_edit_time'\<rparr>))
               else
                 Inr \<lparr>vd_recipient = None, vd_topic = '''',
                      vd_content = content', vd_last_edit_time = last_edit_time'\<rparr>))"

subsection \<open>The object-relational layer\<close>

text \<open>
  The queries the two files issue, on the tables of \<open>db\<close>. The rows of the draft table
  are kept in insertion order.
\<close>

text \<open>\<^verbatim>\<open>Draft.objects.get(id=draft_id, user_profile=user_profile)\<close>\<close>

definition Draft_objects_get ::
  "int \<Rightarrow> 'a user_profile_scheme \<Rightarrow> 'a db \<Rightarrow> error + (int \<times> draft)" where
  "Draft_objects_get draft_id user_profile d =
     (case filter (\<lambda>(i, r). i = draft_id \<and> user_profile_id r = user_id user_profile)
             (drafts d) of
        [] \<Rightarrow> Inl DoesNotExist
      | [row] \<Rightarrow> Inr row
      | _ \<Rightarrow> Inl MultipleObjectsReturned)"

text \<open>\<^verbatim>\<open>draft_object.save()\<close> on an object that was fetched: an update by primary key.\<close>

definition Draft_save :: "int \<times> draft \<Rightarrow> 'a db \<Rightarrow> 'a db" where
  "Draft_save obj d =
     d\<lparr>drafts := map (\<lambda>(i, r). if i = fst obj then obj else (i, r)) (drafts d)\<rparr>"

text \<open>\<^verbatim>\<open>draft_object.delete()\<close>\<close>

definition Draft_delete :: "int \<times> draft \<Rightarrow> 'a db \<Rightarrow> 'a db" where
  "Draft_delete obj d = d\<lparr>drafts := filter (\<lambda>(i, r). i \<noteq> fst obj) (drafts d)\<rparr>"

text \<open>
  \<^verbatim>\<open>Draft.objects.bulk_create(draft_objects)\<close>: one insertion of all the objects, which
  take the next ids of the sequence in the order of the list; the objects come back
  with their ids.
\<close>

definition Draft_objects_bulk_create ::
  "draft list \<Rightarrow> 'a db \<Rightarrow> (int \<times> draft) list \<times> 'a db" where
  "Draft_objects_bulk_create draft_objects d =
     (let created = zip (map (\<lambda>k. next_id d + int k) [0 ..< length draft_objects])
                        draft_objects
      in (created,
          d\<lparr>drafts := drafts d @ created,
            next_id := next_id d + int (length draft_objects)\<rparr>))"

text \<open>\<^verbatim>\<open>Draft.objects.filter(user_profile=user_profile)\<close>\<close>

definition Draft_objects_filter ::
  "'a user_profile_scheme \<Rightarrow> 'a db \<Rightarrow> (int \<times> draft) list" where
  "Draft_objects_filter user_profile d =
     filter (\<lambda>(i, r). user_profile_id r = user_id user_profile) (drafts d)"

text \<open>\<^verbatim>\<open>Draft.objects.filter(user_profile=user_profile).delete()\<close>\<close>

definition Draft_objects_filter_delete :: "'a user_profile_scheme \<Rightarrow> 'a db \<Rightarrow> 'a db" where
  "Draft_objects_filter_delete user_profile d =
     d\<lparr>drafts := filter (\<lambda>(i, r). user_profile_id r \<noteq> user_id user_profile) (drafts d)\<rparr>"

text \<open>
  \<^verbatim>\<open>user_profile.save(update_fields=["enable_drafts_synchronization"])\<close>: an update of
  that one column of the row with the object's primary key. Django raises when the
  update touches no row.
\<close>

definition user_profile_save_update_fields ::
  "'a user_profile_scheme \<Rightarrow> 'a db \<Rightarrow> (error + unit) \<times> 'a db" where
  "user_profile_save_update_fields user_profile d =
     (case users d (user_id user_profile) of
        None \<Rightarrow>
          (Inl (DatabaseError ''Save with update_fields did not affect any rows.''), d)
      | Some row \<Rightarrow>
          (Inr (),
           d\<lparr>users := (users d)(user_id user_profile \<mapsto>
                row\<lparr>enable_drafts_synchronization :=
                      enable_drafts_synchronization user_profile\<rparr>)\<rparr>))"

text \<open>
  What the database guarantees of the draft table: the primary keys of its rows differ,
  and the sequence is ahead of all of them.
\<close>

definition primary_keys_ok :: "'a db \<Rightarrow> bool" where
  "primary_keys_ok d \<longleftrightarrow>
     distinct (map fst (drafts d)) \<and> (\<forall>i\<in>set (map fst (drafts d)). i < next_id d)"

subsection \<open>The operations of \<^verbatim>\<open>zerver/lib/drafts.py\<close>\<close>

text \<open>The loop of \<^verbatim>\<open>do_create_drafts\<close>, with \<^verbatim>\<open>draft_objects\<close> as the accumulator.\<close>

fun create_loop ::
  "'a env \<Rightarrow> 'a user_profile_scheme \<Rightarrow> draft_dict list \<Rightarrow> draft list \<Rightarrow> error + draft list"
where
  "create_loop env user_profile [] draft_objects = Inr draft_objects"
| "create_loop env user_profile (draft_dict # rest) draft_objects =
     (case further_validated_draft_dict env draft_dict user_profile of
        Inl e \<Rightarrow> Inl e
      | Inr valid_draft_dict \<Rightarrow>
          create_loop env user_profile rest
            (draft_objects @
             [\<lparr>user_profile_id = user_id user_profile,
               recipient = vd_recipient valid_draft_dict,
               topic = vd_topic valid_draft_dict,
               content = vd_content valid_draft_dict,
               last_edit_time = vd_last_edit_time valid_draft_dict\<rparr>]))"

text \<open>The \<^verbatim>\<open>Draft(...)\<close> object that the loop builds from a validated dictionary.\<close>

abbreviation new_Draft :: "'a user_profile_scheme \<Rightarrow> valid_draft_dict \<Rightarrow> draft" where
  "new_Draft user_profile valid_draft_dict \<equiv>
     \<lparr>user_profile_id = user_id user_profile,
      recipient = vd_recipient valid_draft_dict,
      topic = vd_topic valid_draft_dict,
      content = vd_content valid_draft_dict,
      last_edit_time = vd_last_edit_time valid_draft_dict\<rparr>"

definition do_create_drafts ::
  "'a env \<Rightarrow> draft_dict list \<Rightarrow> 'a user_profile_scheme \<Rightarrow> 'a db \<Rightarrow>
     (error + (int \<times> draft) list) \<times> 'a db" where
  "do_create_drafts env draft_dicts user_profile d =
     (case create_loop env user_profile draft_dicts [] of
        Inl e \<Rightarrow> (Inl e, d)
      | Inr draft_objects \<Rightarrow>
          (let (created_draft_objects, d') = Draft_objects_bulk_create draft_objects d
           in (Inr created_draft_objects, d')))"

definition do_edit_draft ::
  "'a env \<Rightarrow> int \<Rightarrow> draft_dict \<Rightarrow> 'a user_profile_scheme \<Rightarrow> 'a db \<Rightarrow>
     (error + unit) \<times> 'a db" where
  "do_edit_draft env draft_id draft_dict user_profile d =
     (case Draft_objects_get draft_id user_profile d of
        Inl DoesNotExist \<Rightarrow> (Inl (JsonableError ''Draft does not exist''), d)
      | Inl e \<Rightarrow> (Inl e, d)
      | Inr (i, draft_object) \<Rightarrow>
          (case further_validated_draft_dict env draft_dict user_profile of
             Inl e \<Rightarrow> (Inl e, d)
           | Inr valid_draft_dict \<Rightarrow>
               (Inr (),
                Draft_save
                  (i, draft_object\<lparr>content := vd_content valid_draft_dict,
                                    topic := vd_topic valid_draft_dict,
                                    recipient := vd_recipient valid_draft_dict,
                                    last_edit_time := vd_last_edit_time valid_draft_dict\<rparr>)
                  d)))"

definition do_delete_draft ::
  "int \<Rightarrow> 'a user_profile_scheme \<Rightarrow> 'a db \<Rightarrow> (error + unit) \<times> 'a db" where
  "do_delete_draft draft_id user_profile d =
     (case Draft_objects_get draft_id user_profile d of
        Inl DoesNotExist \<Rightarrow> (Inl (JsonableError ''Draft does not exist''), d)
      | Inl e \<Rightarrow> (Inl e, d)
      | Inr draft_object \<Rightarrow> (Inr (), Draft_delete draft_object d))"

text \<open>
  The two toggles change the object they are given and then the database; they return
  the outcome, the changed object and the database.
\<close>

definition do_enable_drafts_syncing ::
  "'a user_profile_scheme \<Rightarrow> 'a db \<Rightarrow>
     (error + unit) \<times> 'a user_profile_scheme \<times> 'a db" where
  "do_enable_drafts_syncing user_profile d =
     (let user_profile' = user_profile\<lparr>enable_drafts_synchronization := True\<rparr>;
          (r, d') = user_profile_save_update_fields user_profile' d
      in (r, user_profile', d'))"

definition do_disable_drafts_syncing ::
  "'a user_profile_scheme \<Rightarrow> 'a db \<Rightarrow>
     (error + unit) \<times> 'a user_profile_scheme \<times> 'a db" where
  "do_disable_drafts_syncing user_profile d =
     (let user_profile' = user_profile\<lparr>enable_drafts_synchronization := False\<rparr>;
          (r, d') = user_profile_save_update_fields user_profile' d
      in case r of
           Inl e \<Rightarrow> (Inl e, user_profile', d')
         | Inr _ \<Rightarrow> (Inr (), user_profile', Draft_objects_filter_delete user_profile' d'))"

subsection \<open>The views of \<^verbatim>\<open>zerver/views/drafts.py\<close>\<close>

text \<open>
  A view takes the request, the acting user and the database and either raises or
  returns a response. The decorator \<^verbatim>\<open>draft_endpoint\<close> is the outermost one of every
  view, so its test runs before \<^verbatim>\<open>has_request_variables\<close> looks at the request.
\<close>

type_synonym 'a view =
  "request \<Rightarrow> 'a user_profile_scheme \<Rightarrow> 'a db \<Rightarrow> (error + response) \<times> 'a db"

definition draft_endpoint :: "'a view \<Rightarrow> 'a view" where
  "draft_endpoint view_func request' user_profile d =
     (if \<not> enable_drafts_synchronization user_profile then
        (Inl (JsonableError ''User has not enabled drafts syncing.''), d)
      else view_func request' user_profile d)"

text \<open>The rows in ascending \<^verbatim>\<open>last_edit_time\<close>; rows of equal time keep their order.\<close>

definition fetch_drafts :: "'a view" where
  "fetch_drafts =
     draft_endpoint (\<lambda>request' user_profile d.
       (let user_drafts = sort_key (\<lambda>(i, r). last_edit_time r)
                            (Draft_objects_filter user_profile d)
        in (Inr (json_success (DraftList (length user_drafts) user_drafts)), d)))"

definition create_drafts :: "'a env \<Rightarrow> 'a view" where
  "create_drafts env =
     draft_endpoint (\<lambda>request' user_profile d.
       (case REQ_drafts env request' of
          Inl e \<Rightarrow> (Inl e, d)
        | Inr draft_dicts \<Rightarrow>
            (case do_create_drafts env draft_dicts user_profile d of
               (Inl e, d') \<Rightarrow> (Inl e, d')
             | (Inr created_draft_objects, d') \<Rightarrow>
                 (Inr (json_success (DraftIds (map fst created_draft_objects))), d'))))"

text \<open>
  \<^verbatim>\<open>except JsonableError as err: return json_error(str(err), status=404)\<close> catches
  every \<^verbatim>\<open>JsonableError\<close> that \<^verbatim>\<open>do_edit_draft\<close> raises.
\<close>

definition edit_draft :: "'a env \<Rightarrow> int \<Rightarrow> 'a view" where
  "edit_draft env draft_id =
     draft_endpoint (\<lambda>request' user_profile d.
       (case REQ_draft env request' of
          Inl e \<Rightarrow> (Inl e, d)
        | Inr draft_dict \<Rightarrow>
            (case do_edit_draft env draft_id draft_dict user_profile d of
               (Inl (JsonableError err), d') \<Rightarrow> (Inr (json_error err 404), d')
             | (Inl e, d') \<Rightarrow> (Inl e, d')
             | (Inr _, d') \<Rightarrow> (Inr (json_success NoData), d'))))"

definition delete_draft :: "int \<Rightarrow> 'a view" where
  "delete_draft draft_id =
     draft_endpoint (\<lambda>request' user_profile d.
       (case do_delete_draft draft_id user_profile d of
          (Inl (JsonableError err), d') \<Rightarrow> (Inr (json_error err 404), d')
        | (Inl e, d') \<Rightarrow> (Inl e, d')
        | (Inr _, d') \<Rightarrow> (Inr (json_success NoData), d')))"

subsection \<open>A small instance\<close>

text \<open>
  Modelled from the spec: \<^verbatim>\<open>truncate_body\<close> and \<^verbatim>\<open>truncate_topic\<close> of
  \<^verbatim>\<open>zerver.lib.message\<close> are not among the sources; the specification has them cut
  a text to the platform's maximum length. In this instance the maxima are 10 and 4
  characters, stream 5 is the one stream the users may access, and users 1 and 2 are
  the users of realm 1.

  Modelled from the spec: \<^verbatim>\<open>timestamp_to_datetime\<close> of \<^verbatim>\<open>zerver.lib.timestamp\<close> is not
  among the sources either; the specification has the time of the last edit be an
  absolute time of microsecond precision. A Python datetime covers the years 1 to 9999:
  in this instance the conversion raises for a timestamp before -62135596800 or from
  253402300800 on, and otherwise gives the timestamp rounded to microseconds.
\<close>

definition sample_users :: "int \<rightharpoonup> user_profile" where
  "sample_users =
     [1 \<mapsto> \<lparr>user_id = 1, realm = 1, enable_drafts_synchronization = True\<rparr>,
      2 \<mapsto> \<lparr>user_id = 2, realm = 1, enable_drafts_synchronization = True\<rparr>]"

definition sample_env :: "unit env" where
  "sample_env =
     \<lparr>truncate_body = take 10,
      truncate_topic = take 4,
      time_time = 1600000000,
      timestamp_to_datetime =
        (\<lambda>t. if py_value t < - 62135596800 \<or> 253402300800 \<le> py_value t
             then Inl (ValueError ''year is out of range'')
             else Inr (round_decimal (py_value t) 6)),
      access_stream_by_id =
        (\<lambda>u i. if i = 5 then Inr (\<lparr>stream_id = 5, stream_recipient = Some 50\<rparr>, Some 1)
               else Inl (JsonableError ''Invalid stream id'')),
      get_user_profiles_by_ids =
        (\<lambda>ids r. if ids \<subseteq> {1, 2} \<and> r = 1
                 then Inr (map (\<lambda>i. the (sample_users i)) (filter (\<lambda>i. i \<in> ids) [1, 2]))
                 else Inl (JsonableError ''Invalid user ID'')),
      recipient_for_user_profiles =
        (\<lambda>us fwd fwder sender.
           if us = [] then Inl (ValidationError [''Invalid recipients''])
           else Inr (100 + sum_list (map user_id us))),
      REQ_drafts = (\<lambda>r. Inl (JsonableError ''Missing drafts argument'')),
      REQ_draft = (\<lambda>r. Inl (JsonableError ''Missing draft argument''))\<rparr>"

definition alice :: user_profile where
  "alice = \<lparr>user_id = 1, realm = 1, enable_drafts_synchronization = True\<rparr>"

definition bob :: user_profile where
  "bob = \<lparr>user_id = 2, realm = 1, enable_drafts_synchronization = True\<rparr>"

definition sample_db :: "unit db" where
  "sample_db =
     \<lparr>users = sample_users,
      drafts =
        [(1, \<lparr>user_profile_id = 1, recipient = None, topic = '''', content = ''hello'',
               last_edit_time = 10\<rparr>),
         (2, \<lparr>user_profile_id = 2, recipient = Some 50, topic = ''t'', content = ''bye'',
               last_edit_time = 20\<rparr>),
         (3, \<lparr>user_profile_id = 1, recipient = Some 50, topic = ''u'', content = ''again'',
               last_edit_time = 5\<rparr>)],
      next_id = 4\<rparr>"

definition sample_request :: request where
  "sample_request = \<lparr>post_data = []\<rparr>"

text \<open>Draft dictionaries of the instance.\<close>

definition stream_two_ids :: draft_dict where
  "stream_two_ids =
     \<lparr>dd_type = ''stream'', dd_to = [5, 6], dd_topic = ''t'', dd_content = ''c'',
      dd_timestamp = None\<rparr>"

definition stream_two_ids_null_content :: draft_dict where
  "stream_two_ids_null_content =
     \<lparr>dd_type = ''stream'', dd_to = [5, 6], dd_topic = ''t'',
      dd_content = [CHR ''c'', CHR 0x00], dd_timestamp = None\<rparr>"

definition private_no_recipient :: draft_dict where
  "private_no_recipient =
     \<lparr>dd_type = ''private'', dd_to = [], dd_topic = ''x'', dd_content = ''hi'',
      dd_timestamp = None\<rparr>"

definition null_after_cut :: draft_dict where
  "null_after_cut =
     \<lparr>dd_type = '''', dd_to = [], dd_topic = '''',
      dd_content = ''0123456789'' @ [CHR 0x00, CHR ''x''], dd_timestamp = Some (PyInt 7)\<rparr>"

definition null_before_cut :: draft_dict where
  "null_before_cut =
     \<lparr>dd_type = '''', dd_to = [], dd_topic = '''',
      dd_content = [CHR ''a'', CHR 0x00, CHR ''b''], dd_timestamp = Some (PyInt 7)\<rparr>"

definition private_null_topic :: draft_dict where
  "private_null_topic =
     \<lparr>dd_type = ''private'', dd_to = [2], dd_topic = [CHR ''a'', CHR 0x00] @ ''bcdefgh'',
      dd_content = ''hi'', dd_timestamp = Some (PyInt 7)\<rparr>"

definition stream_null_topic :: draft_dict where
  "stream_null_topic =
     \<lparr>dd_type = ''stream'', dd_to = [5], dd_topic = [CHR ''a'', CHR 0x00],
      dd_content = ''hi'', dd_timestamp = Some (PyInt 7)\<rparr>"

text \<open>
  Timestamps of the instance: the floats are dyadic rationals of at most 53 significant
  bits, the values that a float can hold.
\<close>

definition negative_timestamp :: draft_dict where
  "negative_timestamp =
     \<lparr>dd_type = '''', dd_to = [], dd_topic = '''', dd_content = ''hi'',
      dd_timestamp = Some (PyFloat (- 1 / 1024))\<rparr>"


definition zero_timestamp :: draft_dict where
  "zero_timestamp =
     \<lparr>dd_type = '''', dd_to = [], dd_topic = '''', dd_content = ''hi'',
      dd_timestamp = Some (PyInt 0)\<rparr>"


definition fractional_timestamp :: draft_dict where
  "fractional_timestamp =
     \<lparr>dd_type = '''', dd_to = [], dd_topic = '''', dd_content = ''hi'',
      dd_timestamp = Some (PyFloat (1600000000 + 1 / 4 + 1 / 2 ^ 22))\<rparr>"



definition stream_two_ids_year_10000 :: draft_dict where
  "stream_two_ids_year_10000 =
     \<lparr>dd_type = ''stream'', dd_to = [5, 6], dd_topic = ''t'', dd_content = ''c'',
      dd_timestamp = Some (PyInt 253402300800)\<rparr>"

definition good_batch :: "draft_dict list" where
  "good_batch = [private_no_recipient, private_null_topic, zero_timestamp]"

definition bad_batch :: "draft_dict list" where
  "bad_batch = [private_no_recipient, null_before_cut, stream_two_ids]"

text \<open>The user \<open>alice\<close> and the database after she disables and then enables syncing.\<close>

definition alice_off :: user_profile where
  "alice_off = fst (snd (do_disable_drafts_syncing alice sample_db))"

definition db_off :: "unit db" where
  "db_off = snd (snd (do_disable_drafts_syncing alice sample_db))"

definition alice_on :: user_profile where
  "alice_on = fst (snd (do_enable_drafts_syncing alice_off db_off))"

definition db_on :: "unit db" where
  "db_on = snd (snd (do_enable_drafts_syncing alice_off db_off))"

text \<open>The database after \<open>alice\<close>, enabled again, has created the drafts of a batch.\<close>

definition db_created :: "unit db" where
  "db_created =
     snd (create_drafts (sample_env\<lparr>REQ_drafts := \<lambda>r. Inr good_batch\<rparr>) sample_request
            alice_on db_on)"

section \<open>Properties\<close>

subsection \<open>Rounding\<close>







lemma log2_floor_less:
  assumes "0 < x"
  shows "x < power_int 2 (log2_floor x + 1)"
proof -
  obtain p q where pq: "quotient_of x = (p, q)" by (cases "quotient_of x")
  have q: "0 < q" using pq by (rule quotient_of_denom_pos)
  have x: "x = of_int p / of_int q" using pq by (rule quotient_of_div)
  have p: "0 < p" using assms q x by (simp add: zero_less_divide_iff)
  define k where "k = bitlen p - bitlen q"
  have l: "log2_floor x = (if power_int 2 k \<le> x then k else k - 1)"
    by (simp add: log2_floor_def pq k_def)
  show ?thesis
  proof (cases "power_int 2 k \<le> x")
    case False
    then show ?thesis by (simp add: l)
  next
    case True
    have bp: "0 < bitlen p" and bq: "0 < bitlen q"
      using p q bitlen_eq_zero_iff [of p] bitlen_eq_zero_iff [of q] bitlen_nonneg [of p]
        bitlen_nonneg [of q] by linarith+
    have "p < 2 ^ nat (bitlen p)" using bitlen_bounds [OF p] ..
    then have "(of_int p :: rat) < 2 ^ nat (bitlen p)"
      by (metis of_int_less_iff of_int_numeral of_int_power)
    then have up: "(of_int p :: rat) < power_int 2 (bitlen p)"
      using bp by (simp add: power_int_def)
    have "2 ^ nat (bitlen q - 1) \<le> q" using bitlen_bounds [OF q] ..
    then have "(2 :: rat) ^ nat (bitlen q - 1) \<le> of_int q"
      by (metis of_int_le_iff of_int_numeral of_int_power)
    then have lq: "power_int (2 :: rat) (bitlen q - 1) \<le> of_int q"
      using bq by (simp add: power_int_def)
    have "of_int p / of_int q < power_int (2 :: rat) (bitlen p) / of_int q"
      using up q by (intro divide_strict_right_mono) simp_all
    also have "\<dots> \<le> power_int 2 (bitlen p) / power_int 2 (bitlen q - 1)"
      using lq q by (intro divide_left_mono) (simp_all add: zero_less_mult_iff)
    also have "\<dots> = power_int 2 (bitlen p - (bitlen q - 1))"
      by (rule power_int_diff [symmetric]) simp
    also have "\<dots> = power_int 2 (k + 1)"
      by (simp add: k_def algebra_simps)
    finally have "x < power_int 2 (k + 1)" by (simp only: x)
    then show ?thesis using True by (simp add: l)
  qed
qed





text \<open>The floats of the instance are values that a float holds.\<close>

lemma sample_floats:
  "nearest_double 1600000000 = 1600000000"
  "nearest_double (- 1 / 1024) = - 1 / 1024"
  "nearest_double (- 1 / 2 ^ 24) = - 1 / 2 ^ 24"
  "nearest_double (1600000000 + 1 / 4 + 1 / 2 ^ 22) = 1600000000 + 1 / 4 + 1 / 2 ^ 22"
  "nearest_double (253402300799 + 1 / 2) = 253402300799 + 1 / 2"
  "nearest_double (1 / 10) = 3602879701896397 / 2 ^ 55"
  by code_simp+

subsection \<open>The steps of \<^verbatim>\<open>further_validated_draft_dict\<close>\<close>

lemma fvdd_content_null:
  "CHR 0x00 \<in> set (truncate_body env (dd_content d)) \<Longrightarrow>
   further_validated_draft_dict env d u = Inl (JsonableError ''Content must not contain null bytes'')"
  by (simp add: further_validated_draft_dict_def)

lemma fvdd_negative:
  "CHR 0x00 \<notin> set (truncate_body env (dd_content d)) \<Longrightarrow>
   derived_timestamp env d < 0 \<Longrightarrow>
   further_validated_draft_dict env d u = Inl (JsonableError ''Timestamp must not be negative.'')"
  by (simp add: further_validated_draft_dict_def Let_def)

lemma fvdd_conversion_raises:
  "CHR 0x00 \<notin> set (truncate_body env (dd_content d)) \<Longrightarrow>
   \<not> derived_timestamp env d < 0 \<Longrightarrow>
   timestamp_to_datetime env (rounded_timestamp env d) = Inl e \<Longrightarrow>
   further_validated_draft_dict env d u = Inl e"
  by (simp add: further_validated_draft_dict_def Let_def)

lemma fvdd_undirected:
  "CHR 0x00 \<notin> set (truncate_body env (dd_content d)) \<Longrightarrow>
   \<not> derived_timestamp env d < 0 \<Longrightarrow>
   timestamp_to_datetime env (rounded_timestamp env d) = Inr t \<Longrightarrow>
   dd_type d \<noteq> ''stream'' \<Longrightarrow>
   dd_type d \<noteq> ''private'' \<or> dd_to d = [] \<Longrightarrow>
   further_validated_draft_dict env d u =
     Inr \<lparr>vd_recipient = None, vd_topic = '''',
          vd_content = truncate_body env (dd_content d),
          vd_last_edit_time = t\<rparr>"
  by (auto simp add: further_validated_draft_dict_def Let_def)

lemma fvdd_Inr:
  assumes "further_validated_draft_dict env d u = Inr n"
  shows "CHR 0x00 \<notin> set (truncate_body env (dd_content d))"
    and "\<not> derived_timestamp env d < 0"
    and "vd_content n = truncate_body env (dd_content d)"
    and "timestamp_to_datetime env (rounded_timestamp env d) = Inr (vd_last_edit_time n)"
    and "dd_type d = ''stream'' \<Longrightarrow> vd_topic n = truncate_topic env (dd_topic d) \<and> CHR 0x00 \<notin> set (vd_topic n) \<and> length (dd_to d) = 1"
    and "dd_type d \<noteq> ''stream'' \<Longrightarrow> vd_topic n = ''''"
  using assms
  by (auto simp add: further_validated_draft_dict_def Let_def
      split: if_splits sum.splits prod.splits list.splits)

lemma fvdd_stream:
  "dd_type d = ''stream'' \<Longrightarrow>
   CHR 0x00 \<notin> set (truncate_body env (dd_content d)) \<Longrightarrow>
   \<not> derived_timestamp env d < 0 \<Longrightarrow>
   timestamp_to_datetime env (rounded_timestamp env d) = Inr t \<Longrightarrow>
   further_validated_draft_dict env d u =
    (if CHR 0x00 \<in> set (truncate_topic env (dd_topic d)) then
       Inl (JsonableError ''Topic must not contain null bytes'')
     else if length (dd_to d) \<noteq> 1 then
       Inl (JsonableError ''Must specify exactly 1 stream ID for stream messages'')
     else
       (case access_stream_by_id env u (dd_to d ! 0) of
          Inl e \<Rightarrow> Inl e
        | Inr (stream', sub) \<Rightarrow>
            Inr \<lparr>vd_recipient = stream_recipient stream',
                 vd_topic = truncate_topic env (dd_topic d),
                 vd_content = truncate_body env (dd_content d),
                 vd_last_edit_time = t\<rparr>))"
  by (simp add: further_validated_draft_dict_def Let_def)

lemma fvdd_content_cong:
  "truncate_body env c = truncate_body env (dd_content d) \<Longrightarrow>
   further_validated_draft_dict env (d\<lparr>dd_content := c\<rparr>) u = further_validated_draft_dict env d u"
  by (cases "timestamp_to_datetime env (rounded_timestamp env d)")
     (simp_all add: further_validated_draft_dict_def Let_def
        cong: option.case_cong sum.case_cong)

lemma fvdd_topic_irrelevant:
  "dd_type d \<noteq> ''stream'' \<Longrightarrow>
   further_validated_draft_dict (env\<lparr>truncate_topic := f\<rparr>) (d\<lparr>dd_topic := t\<rparr>) u =
   further_validated_draft_dict env d u"
  by (cases "timestamp_to_datetime env (rounded_timestamp env d)")
     (simp_all add: further_validated_draft_dict_def Let_def
        cong: option.case_cong sum.case_cong)

lemma fvdd_resolvers_irrelevant:
  "dd_type d \<noteq> ''stream'' \<Longrightarrow> dd_type d \<noteq> ''private'' \<or> dd_to d = [] \<Longrightarrow>
   further_validated_draft_dict
     (env\<lparr>access_stream_by_id := a, get_user_profiles_by_ids := g,
          recipient_for_user_profiles := r\<rparr>) d u =
   further_validated_draft_dict env d u"
  by (cases "timestamp_to_datetime env (rounded_timestamp env d)")
     (auto simp add: further_validated_draft_dict_def Let_def
        cong: option.case_cong sum.case_cong)

lemmas validator_defs = draft_dict_validator_def VALID_DRAFT_TYPES_def check_required_string_def

text \<open>The conversion of the instance, on the timestamps it accepts and refuses.\<close>

lemma sample_conversion:
  "- 62135596800 \<le> py_value t \<Longrightarrow> py_value t < 253402300800 \<Longrightarrow>
     timestamp_to_datetime sample_env t = Inr (round_decimal (py_value t) 6)"
  "253402300800 \<le> py_value t \<Longrightarrow>
     timestamp_to_datetime sample_env t = Inl (ValueError ''year is out of range'')"
  by (simp_all add: sample_env_def)

subsection \<open>Stream drafts name exactly one stream\<close>

text \<open>
  C4, as stated, fails: a stream draft with two stream ids whose content carries a null
  byte is rejected for the null byte, not for the number of stream ids. The checks on
  the content, the timestamp and the topic come first.
\<close>

theorem stream_id_count_counterexample:
  "draft_dict_validator stream_two_ids_null_content \<and>
   dd_type stream_two_ids_null_content = ''stream'' \<and>
   length (dd_to stream_two_ids_null_content) \<noteq> 1 \<and>
   further_validated_draft_dict sample_env stream_two_ids_null_content alice =
     Inl (JsonableError ''Content must not contain null bytes'') \<and>
   further_validated_draft_dict sample_env stream_two_ids_null_content alice \<noteq>
     Inl (JsonableError ''Must specify exactly 1 stream ID for stream messages'')"
  by (simp add: further_validated_draft_dict_def stream_two_ids_null_content_def
      sample_env_def validator_defs)

text \<open>
  C4, amended: a structurally valid stream draft whose \<open>to\<close> list does not hold exactly
  one id never yields a normalized draft. A null byte in the truncated content is
  rejected with the content error; otherwise a negative rounded timestamp is rejected
  with the timestamp error; otherwise, when the conversion of the timestamp to a time
  succeeds, a null byte in the truncated topic is rejected with the topic error, and
  without one the draft is rejected with the error about exactly one stream id.
\<close>

theorem stream_id_count_error:
  assumes "draft_dict_validator d" and "dd_type d = ''stream''" and "length (dd_to d) \<noteq> 1"
  shows "(\<forall>n. further_validated_draft_dict env d u \<noteq> Inr n) \<and>
    (CHR 0x00 \<in> set (truncate_body env (dd_content d)) \<longrightarrow>
       further_validated_draft_dict env d u =
         Inl (JsonableError ''Content must not contain null bytes'')) \<and>
    (CHR 0x00 \<notin> set (truncate_body env (dd_content d)) \<and> derived_timestamp env d < 0 \<longrightarrow>
       further_validated_draft_dict env d u =
         Inl (JsonableError ''Timestamp must not be negative.'')) \<and>
    (\<forall>t. CHR 0x00 \<notin> set (truncate_body env (dd_content d)) \<and>
         \<not> derived_timestamp env d < 0 \<and>
         timestamp_to_datetime env (rounded_timestamp env d) = Inr t \<longrightarrow>
       further_validated_draft_dict env d u =
         Inl (JsonableError
           (if CHR 0x00 \<in> set (truncate_topic env (dd_topic d)) then
              ''Topic must not contain null bytes''
            else ''Must specify exactly 1 stream ID for stream messages'')))"
proof (intro conjI allI impI)
  fix n
  show "further_validated_draft_dict env d u \<noteq> Inr n"
    using fvdd_Inr(5) [of env d u n] assms(2,3) by blast
next
  assume "CHR 0x00 \<in> set (truncate_body env (dd_content d))"
  then show "further_validated_draft_dict env d u =
      Inl (JsonableError ''Content must not contain null bytes'')"
    by (rule fvdd_content_null)
next
  assume "CHR 0x00 \<notin> set (truncate_body env (dd_content d)) \<and> derived_timestamp env d < 0"
  then show "further_validated_draft_dict env d u =
      Inl (JsonableError ''Timestamp must not be negative.'')"
    by (simp add: fvdd_negative)
next
  fix t
  assume "CHR 0x00 \<notin> set (truncate_body env (dd_content d)) \<and>
         \<not> derived_timestamp env d < 0 \<and>
         timestamp_to_datetime env (rounded_timestamp env d) = Inr t"
  then show "further_validated_draft_dict env d u =
         Inl (JsonableError
           (if CHR 0x00 \<in> set (truncate_topic env (dd_topic d)) then
              ''Topic must not contain null bytes''
            else ''Must specify exactly 1 stream ID for stream messages''))"
    using assms(2,3) by (simp add: fvdd_stream [where t = t])
qed

theorem stream_id_count_error_witness:
  "draft_dict_validator stream_two_ids \<and> dd_type stream_two_ids = ''stream'' \<and>
   length (dd_to stream_two_ids) \<noteq> 1 \<and>
   derived_timestamp sample_env stream_two_ids = 1600000000 \<and>
   timestamp_to_datetime sample_env (rounded_timestamp sample_env stream_two_ids) =
     Inr 1600000000 \<and>
   further_validated_draft_dict sample_env stream_two_ids alice =
     Inl (JsonableError ''Must specify exactly 1 stream ID for stream messages'') \<and>
   draft_dict_validator stream_two_ids_year_10000 \<and>
   timestamp_to_datetime sample_env (rounded_timestamp sample_env stream_two_ids_year_10000) =
     Inl (ValueError ''year is out of range'') \<and>
   further_validated_draft_dict sample_env stream_two_ids_year_10000 alice =
     Inl (ValueError ''year is out of range'')"
proof -
  have v: "draft_dict_validator stream_two_ids"
    and v': "draft_dict_validator stream_two_ids_year_10000"
    by (simp_all add: stream_two_ids_def stream_two_ids_year_10000_def validator_defs)
  have t: "dd_type stream_two_ids = ''stream''" by (simp add: stream_two_ids_def)
  have l: "length (dd_to stream_two_ids) \<noteq> 1" by (simp add: stream_two_ids_def)
  have c: "CHR 0x00 \<notin> set (truncate_body sample_env (dd_content stream_two_ids))"
    and p: "CHR 0x00 \<notin> set (truncate_topic sample_env (dd_topic stream_two_ids))"
    by (simp_all add: stream_two_ids_def sample_env_def)
  have d: "derived_timestamp sample_env stream_two_ids = 1600000000"
    and k: "timestamp_to_datetime sample_env (rounded_timestamp sample_env stream_two_ids) =
      Inr 1600000000"
    and k': "timestamp_to_datetime sample_env
        (rounded_timestamp sample_env stream_two_ids_year_10000) =
      Inl (ValueError ''year is out of range'')"
    and r': "further_validated_draft_dict sample_env stream_two_ids_year_10000 alice =
      Inl (ValueError ''year is out of range'')"
    by code_simp+
  have r: "further_validated_draft_dict sample_env stream_two_ids alice =
     Inl (JsonableError ''Must specify exactly 1 stream ID for stream messages'')"
    using stream_id_count_error [OF v t l, of sample_env alice] c p k
    by (simp add: d)
  show ?thesis
    using v v' t l d k k' r r' by blast
qed

subsection \<open>Content: truncation, then the null-byte check\<close>

text \<open>
  C5: the content is truncated first and the null-byte check reads the truncated text.
  A truncated content with a null byte is rejected with the content error; an accepted
  draft carries exactly the truncated content, which has no null byte (nothing is
  stripped); two contents with the same truncation are treated alike, so a null byte
  beyond the cut does not matter; and an undirected draft whose truncated content is
  clean, whose timestamp is not negative and is converted to a time, is accepted.
\<close>

theorem content_truncated_before_null_check:
  "(CHR 0x00 \<in> set (truncate_body env (dd_content d)) \<longrightarrow>
      further_validated_draft_dict env d u =
        Inl (JsonableError ''Content must not contain null bytes'')) \<and>
   (\<forall>n. further_validated_draft_dict env d u = Inr n \<longrightarrow>
      vd_content n = truncate_body env (dd_content d) \<and> CHR 0x00 \<notin> set (vd_content n)) \<and>
   (\<forall>c. truncate_body env c = truncate_body env (dd_content d) \<longrightarrow>
      further_validated_draft_dict env (d\<lparr>dd_content := c\<rparr>) u =
        further_validated_draft_dict env d u) \<and>
   (\<forall>t. CHR 0x00 \<notin> set (truncate_body env (dd_content d)) \<and>
        \<not> derived_timestamp env d < 0 \<and>
        timestamp_to_datetime env (rounded_timestamp env d) = Inr t \<and>
        dd_type d = '''' \<longrightarrow>
      further_validated_draft_dict env d u =
        Inr \<lparr>vd_recipient = None, vd_topic = '''',
             vd_content = truncate_body env (dd_content d),
             vd_last_edit_time = t\<rparr>)"
proof (intro conjI allI impI)
  assume "CHR 0x00 \<in> set (truncate_body env (dd_content d))"
  then show "further_validated_draft_dict env d u =
      Inl (JsonableError ''Content must not contain null bytes'')"
    by (rule fvdd_content_null)
next
  fix n assume n: "further_validated_draft_dict env d u = Inr n"
  show "vd_content n = truncate_body env (dd_content d)" by (rule fvdd_Inr(3) [OF n])
  then show "CHR 0x00 \<notin> set (vd_content n)" using fvdd_Inr(1) [OF n] by simp
next
  fix c assume "truncate_body env c = truncate_body env (dd_content d)"
  then show "further_validated_draft_dict env (d\<lparr>dd_content := c\<rparr>) u =
      further_validated_draft_dict env d u"
    by (rule fvdd_content_cong)
next
  fix t
  assume "CHR 0x00 \<notin> set (truncate_body env (dd_content d)) \<and>
    \<not> derived_timestamp env d < 0 \<and>
    timestamp_to_datetime env (rounded_timestamp env d) = Inr t \<and> dd_type d = ''''"
  then show "further_validated_draft_dict env d u =
        Inr \<lparr>vd_recipient = None, vd_topic = '''',
             vd_content = truncate_body env (dd_content d),
             vd_last_edit_time = t\<rparr>"
    by (intro fvdd_undirected) simp_all
qed

theorem content_truncated_before_null_check_witness:
  "CHR 0x00 \<in> set (dd_content null_after_cut) \<and>
   CHR 0x00 \<notin> set (truncate_body sample_env (dd_content null_after_cut)) \<and>
   further_validated_draft_dict sample_env null_after_cut alice =
     Inr \<lparr>vd_recipient = None, vd_topic = '''', vd_content = ''0123456789'',
          vd_last_edit_time = 7\<rparr> \<and>
   CHR 0x00 \<in> set (truncate_body sample_env (dd_content null_before_cut)) \<and>
   further_validated_draft_dict sample_env null_before_cut alice =
     Inl (JsonableError ''Content must not contain null bytes'')"
proof -
  have n: "CHR 0x00 \<in> set (dd_content null_after_cut)"
    and c: "truncate_body sample_env (dd_content null_after_cut) = ''0123456789''"
    and ty: "dd_type null_after_cut = ''''"
    by (simp_all add: null_after_cut_def sample_env_def)
  have d: "derived_timestamp sample_env null_after_cut = 7"
    and k: "timestamp_to_datetime sample_env (rounded_timestamp sample_env null_after_cut) =
      Inr 7"
    by code_simp+
  have b: "CHR 0x00 \<in> set (truncate_body sample_env (dd_content null_before_cut))"
    by (simp add: null_before_cut_def sample_env_def)
  have r1: "further_validated_draft_dict sample_env null_after_cut alice =
     Inr \<lparr>vd_recipient = None, vd_topic = '''', vd_content = ''0123456789'',
          vd_last_edit_time = 7\<rparr>"
    using content_truncated_before_null_check [of sample_env null_after_cut alice] k
    by (simp add: c d ty)
  have r2: "further_validated_draft_dict sample_env null_before_cut alice =
     Inl (JsonableError ''Content must not contain null bytes'')"
    using content_truncated_before_null_check [of sample_env null_before_cut alice] b
    by blast
  show ?thesis
    using n r1 r2 b by (simp add: c)
qed

subsection \<open>Undirected drafts\<close>

text \<open>
  C7: for a structurally valid draft of type \<open>''''\<close>, or of type \<open>''private''\<close> with an
  empty \<open>to\<close> list, the outcome does not depend on the three resolution collaborators
  (none is called) nor on the topic of the input; a normalized draft has no recipient,
  the empty topic and the truncated content; and the draft is accepted whenever the
  truncated content has no null byte, the timestamp is not negative and its conversion
  to a time succeeds.
\<close>

theorem undirected_draft_has_no_recipient:
  assumes "draft_dict_validator d"
    and "dd_type d = '''' \<or> (dd_type d = ''private'' \<and> dd_to d = [])"
  shows "(\<forall>a g r. further_validated_draft_dict
             (env\<lparr>access_stream_by_id := a, get_user_profiles_by_ids := g,
                  recipient_for_user_profiles := r\<rparr>) d u =
           further_validated_draft_dict env d u) \<and>
    (\<forall>t. further_validated_draft_dict env (d\<lparr>dd_topic := t\<rparr>) u =
           further_validated_draft_dict env d u) \<and>
    (\<forall>n. further_validated_draft_dict env d u = Inr n \<longrightarrow>
       vd_recipient n = None \<and> vd_topic n = '''' \<and>
       vd_content n = truncate_body env (dd_content d)) \<and>
    (\<forall>t. CHR 0x00 \<notin> set (truncate_body env (dd_content d)) \<and>
         \<not> derived_timestamp env d < 0 \<and>
         timestamp_to_datetime env (rounded_timestamp env d) = Inr t \<longrightarrow>
       further_validated_draft_dict env d u =
         Inr \<lparr>vd_recipient = None, vd_topic = '''',
              vd_content = truncate_body env (dd_content d),
              vd_last_edit_time = t\<rparr>)"
proof -
  have ns: "dd_type d \<noteq> ''stream''" and np: "dd_type d \<noteq> ''private'' \<or> dd_to d = []"
    using assms(2) by auto
  have acc: "further_validated_draft_dict env d u =
         Inr \<lparr>vd_recipient = None, vd_topic = '''',
              vd_content = truncate_body env (dd_content d),
              vd_last_edit_time = t\<rparr>"
    if "CHR 0x00 \<notin> set (truncate_body env (dd_content d))" "\<not> derived_timestamp env d < 0"
      "timestamp_to_datetime env (rounded_timestamp env d) = Inr t" for t
    using that ns np by (rule fvdd_undirected)
  have inr: "vd_recipient n = None \<and> vd_topic n = '''' \<and>
       vd_content n = truncate_body env (dd_content d)"
    if n: "further_validated_draft_dict env d u = Inr n" for n
  proof -
    have "Inr n = Inr \<lparr>vd_recipient = None, vd_topic = '''',
              vd_content = truncate_body env (dd_content d),
              vd_last_edit_time = vd_last_edit_time n\<rparr>"
      using acc [OF fvdd_Inr(1) [OF n] fvdd_Inr(2) [OF n] fvdd_Inr(4) [OF n]] n by simp
    then have "n = \<lparr>vd_recipient = None, vd_topic = '''',
              vd_content = truncate_body env (dd_content d),
              vd_last_edit_time = vd_last_edit_time n\<rparr>"
      by (simp only: sum.inject)
    then show ?thesis
      by (metis valid_draft_dict.select_convs(1,2,3))
  qed
  have top: "further_validated_draft_dict env (d\<lparr>dd_topic := t\<rparr>) u =
           further_validated_draft_dict env d u" for t
    using fvdd_topic_irrelevant [OF ns, where env = env and f = "truncate_topic env" and t = t and u = u]
    by simp
  show ?thesis
    using fvdd_resolvers_irrelevant [OF ns np] acc inr top by blast
qed

theorem undirected_draft_has_no_recipient_witness:
  "draft_dict_validator private_no_recipient \<and>
   (dd_type private_no_recipient = '''' \<or>
    (dd_type private_no_recipient = ''private'' \<and> dd_to private_no_recipient = [])) \<and>
   further_validated_draft_dict sample_env private_no_recipient alice =
     Inr \<lparr>vd_recipient = None, vd_topic = '''', vd_content = ''hi'',
          vd_last_edit_time = 1600000000\<rparr>"
proof -
  have v: "draft_dict_validator private_no_recipient"
    by (simp add: private_no_recipient_def validator_defs)
  have t: "dd_type private_no_recipient = '''' \<or>
    (dd_type private_no_recipient = ''private'' \<and> dd_to private_no_recipient = [])"
    by (simp add: private_no_recipient_def)
  have c: "truncate_body sample_env (dd_content private_no_recipient) = ''hi''"
    by (simp add: private_no_recipient_def sample_env_def)
  have d: "derived_timestamp sample_env private_no_recipient = 1600000000"
    and k: "timestamp_to_datetime sample_env
        (rounded_timestamp sample_env private_no_recipient) = Inr 1600000000"
    by code_simp+
  have "further_validated_draft_dict sample_env private_no_recipient alice =
     Inr \<lparr>vd_recipient = None, vd_topic = '''', vd_content = ''hi'',
          vd_last_edit_time = 1600000000\<rparr>"
    using undirected_draft_has_no_recipient [OF v t, of sample_env alice] k
    by (simp add: c d)
  then show ?thesis using v t by blast
qed

subsection \<open>The timestamp\<close>





subsection \<open>The topic\<close>

text \<open>
  C10: for a structurally valid draft of type \<open>''private''\<close> or \<open>''''\<close> the outcome depends
  neither on the topic of the input nor on the truncation of topics (the topic is not
  truncated and not searched for null bytes), and the topic of the normalized draft is
  empty. For a draft of type \<open>''stream''\<close> the topic of the normalized draft is the
  truncated topic, which has no null byte, and a null byte in the truncated topic is
  rejected with the topic error once the content and the sign of the timestamp have
  passed and the timestamp is converted to a time.
\<close>

theorem topic_rules_for_stream_only:
  assumes "draft_dict_validator d"
  shows "(dd_type d = ''private'' \<or> dd_type d = '''' \<longrightarrow>
       (\<forall>f t. further_validated_draft_dict (env\<lparr>truncate_topic := f\<rparr>) (d\<lparr>dd_topic := t\<rparr>) u =
              further_validated_draft_dict env d u) \<and>
       (\<forall>n. further_validated_draft_dict env d u = Inr n \<longrightarrow> vd_topic n = '''')) \<and>
    (dd_type d = ''stream'' \<longrightarrow>
       (\<forall>n. further_validated_draft_dict env d u = Inr n \<longrightarrow>
          vd_topic n = truncate_topic env (dd_topic d) \<and> CHR 0x00 \<notin> set (vd_topic n)) \<and>
       (\<forall>t. CHR 0x00 \<notin> set (truncate_body env (dd_content d)) \<and>
          \<not> derived_timestamp env d < 0 \<and>
          timestamp_to_datetime env (rounded_timestamp env d) = Inr t \<and>
          CHR 0x00 \<in> set (truncate_topic env (dd_topic d)) \<longrightarrow>
            further_validated_draft_dict env d u =
              Inl (JsonableError ''Topic must not contain null bytes'')))"
proof (intro conjI impI allI)
  fix f t
  assume "dd_type d = ''private'' \<or> dd_type d = ''''"
  then have "dd_type d \<noteq> ''stream''" by auto
  then show "further_validated_draft_dict (env\<lparr>truncate_topic := f\<rparr>) (d\<lparr>dd_topic := t\<rparr>) u =
      further_validated_draft_dict env d u"
    by (rule fvdd_topic_irrelevant)
next
  fix n
  assume "dd_type d = ''private'' \<or> dd_type d = ''''"
    and n: "further_validated_draft_dict env d u = Inr n"
  then have "dd_type d \<noteq> ''stream''" by auto
  then show "vd_topic n = ''''" by (rule fvdd_Inr(6) [OF n])
next
  fix n
  assume s: "dd_type d = ''stream''" and n: "further_validated_draft_dict env d u = Inr n"
  show "vd_topic n = truncate_topic env (dd_topic d)"
    and "CHR 0x00 \<notin> set (vd_topic n)"
    using fvdd_Inr(5) [OF n s] by blast+
next
  fix t
  assume s: "dd_type d = ''stream''"
    and "CHR 0x00 \<notin> set (truncate_body env (dd_content d)) \<and>
        \<not> derived_timestamp env d < 0 \<and>
        timestamp_to_datetime env (rounded_timestamp env d) = Inr t \<and>
        CHR 0x00 \<in> set (truncate_topic env (dd_topic d))"
  then show "further_validated_draft_dict env d u =
      Inl (JsonableError ''Topic must not contain null bytes'')"
    by (simp add: fvdd_stream [where t = t])
qed

theorem topic_rules_for_stream_only_witness:
  "draft_dict_validator private_null_topic \<and> dd_type private_null_topic = ''private'' \<and>
   CHR 0x00 \<in> set (dd_topic private_null_topic) \<and>
   length (truncate_topic sample_env (dd_topic private_null_topic)) <
     length (dd_topic private_null_topic) \<and>
   further_validated_draft_dict sample_env private_null_topic alice =
     Inr \<lparr>vd_recipient = Some 102, vd_topic = '''', vd_content = ''hi'',
          vd_last_edit_time = 7\<rparr> \<and>
   draft_dict_validator stream_null_topic \<and> dd_type stream_null_topic = ''stream'' \<and>
   further_validated_draft_dict sample_env stream_null_topic alice =
     Inl (JsonableError ''Topic must not contain null bytes'')"
proof -
  have v1: "draft_dict_validator private_null_topic"
    and v2: "draft_dict_validator stream_null_topic"
    by (simp_all add: private_null_topic_def stream_null_topic_def validator_defs)
  have t1: "dd_type private_null_topic = ''private''"
    and t2: "dd_type stream_null_topic = ''stream''"
    by (simp_all add: private_null_topic_def stream_null_topic_def)
  have n1: "CHR 0x00 \<in> set (dd_topic private_null_topic)"
    and l1: "length (truncate_topic sample_env (dd_topic private_null_topic)) <
       length (dd_topic private_null_topic)"
    by (simp_all add: private_null_topic_def sample_env_def)
  have d: "\<not> derived_timestamp sample_env stream_null_topic < 0"
    and k: "timestamp_to_datetime sample_env (rounded_timestamp sample_env stream_null_topic) =
      Inr 7"
    by code_simp+
  have c: "CHR 0x00 \<notin> set (truncate_body sample_env (dd_content stream_null_topic))"
    and n2: "CHR 0x00 \<in> set (truncate_topic sample_env (dd_topic stream_null_topic))"
    by (simp_all add: stream_null_topic_def sample_env_def)
  have r2: "further_validated_draft_dict sample_env stream_null_topic alice =
     Inl (JsonableError ''Topic must not contain null bytes'')"
    using topic_rules_for_stream_only [OF v2, of sample_env alice] t2 c n2 d k
    by blast
  have e: "further_validated_draft_dict sample_env
       (private_null_topic\<lparr>dd_topic := ''''\<rparr>) alice =
     Inr \<lparr>vd_recipient = Some 102, vd_topic = '''', vd_content = ''hi'',
          vd_last_edit_time = 7\<rparr>"
    by code_simp
  have "further_validated_draft_dict (sample_env\<lparr>truncate_topic := truncate_topic sample_env\<rparr>)
       (private_null_topic\<lparr>dd_topic := ''''\<rparr>) alice =
     further_validated_draft_dict sample_env private_null_topic alice"
    using topic_rules_for_stream_only [OF v1, of sample_env alice] t1 by blast
  then have r1: "further_validated_draft_dict sample_env private_null_topic alice =
     Inr \<lparr>vd_recipient = Some 102, vd_topic = '''', vd_content = ''hi'',
          vd_last_edit_time = 7\<rparr>"
    using e by simp
  show ?thesis
    using v1 v2 t1 t2 n1 l1 r1 r2 by blast
qed

subsection \<open>Creating drafts in bulk\<close>

lemma create_loop_Inr:
  "map (\<lambda>d. further_validated_draft_dict env d u) dicts = map Inr ns \<Longrightarrow>
   create_loop env u dicts acc = Inr (acc @ map (new_Draft u) ns)"
proof (induction dicts arbitrary: acc ns)
  case Nil
  then show ?case by simp
next
  case (Cons d dicts)
  then obtain n ns' where ns: "ns = n # ns'" by (cases ns) auto
  with Cons.prems have "further_validated_draft_dict env d u = Inr n"
    and "map (\<lambda>d. further_validated_draft_dict env d u) dicts = map Inr ns'"
    by simp_all
  then show ?case using Cons.IH [of ns'] by (simp add: ns)
qed

lemma create_loop_Inl:
  "map (\<lambda>d. further_validated_draft_dict env d u) pre = map Inr ns \<Longrightarrow>
   further_validated_draft_dict env d u = Inl e \<Longrightarrow>
   create_loop env u (pre @ d # post) acc = Inl e"
proof (induction pre arbitrary: acc ns)
  case Nil
  then show ?case by simp
next
  case (Cons p pre)
  then obtain n ns' where ns: "ns = n # ns'" by (cases ns) auto
  with Cons.prems have "further_validated_draft_dict env p u = Inr n"
    and "map (\<lambda>d. further_validated_draft_dict env d u) pre = map Inr ns'"
    by simp_all
  then show ?case using Cons.IH [of ns'] Cons.prems(2) by simp
qed

lemma create_loop_Inl_nth:
  assumes "i < length dicts"
    and "\<forall>j<i. \<exists>n. further_validated_draft_dict env (dicts ! j) u = Inr n"
    and "further_validated_draft_dict env (dicts ! i) u = Inl e"
  shows "create_loop env u dicts acc = Inl e"
proof -
  let ?f = "\<lambda>d. further_validated_draft_dict env d u"
  have pre: "map ?f (take i dicts) = map Inr (map (projr \<circ> ?f) (take i dicts))"
  proof (rule nth_equalityI)
    show "length (map ?f (take i dicts)) = length (map Inr (map (projr \<circ> ?f) (take i dicts)))"
      by simp
  next
    fix j assume "j < length (map ?f (take i dicts))"
    then have j: "j < i" "j < length dicts" using assms(1) by simp_all
    then obtain n where "?f (dicts ! j) = Inr n" using assms(2) by blast
    then show "map ?f (take i dicts) ! j = map Inr (map (projr \<circ> ?f) (take i dicts)) ! j"
      using j assms(1) by simp
  qed
  have split: "take i dicts @ dicts ! i # drop (Suc i) dicts = dicts"
    using assms(1) by (simp add: id_take_nth_drop [symmetric])
  have "create_loop env u (take i dicts @ dicts ! i # drop (Suc i) dicts) acc = Inl e"
    by (rule create_loop_Inl [OF pre assms(3)])
  then show ?thesis by (simp only: split)
qed

lemma create_loop_Inl_source:
  "create_loop env u dicts acc = Inl e \<Longrightarrow>
   \<exists>d\<in>set dicts. further_validated_draft_dict env d u = Inl e"
  by (induction dicts arbitrary: acc) (auto split: sum.splits)

lemma create_loop_fails:
  "\<exists>d\<in>set dicts. \<exists>e. further_validated_draft_dict env d u = Inl e \<Longrightarrow>
   \<exists>e. create_loop env u dicts acc = Inl e"
  by (induction dicts arbitrary: acc) (auto split: sum.splits)

lemma do_create_drafts_Inl:
  "create_loop env u dicts [] = Inl e \<Longrightarrow> do_create_drafts env dicts u d = (Inl e, d)"
  by (simp add: do_create_drafts_def)

lemma do_create_drafts_Inr:
  assumes "map (\<lambda>x. further_validated_draft_dict env x u) dicts = map Inr ns"
  shows "do_create_drafts env dicts u d =
    (Inr (zip (map (\<lambda>k. next_id d + int k) [0 ..< length dicts]) (map (new_Draft u) ns)),
     d\<lparr>drafts := drafts d @
          zip (map (\<lambda>k. next_id d + int k) [0 ..< length dicts]) (map (new_Draft u) ns),
       next_id := next_id d + int (length dicts)\<rparr>)"
proof -
  have "length ns = length dicts"
    using assms by (metis length_map)
  then show ?thesis
    using create_loop_Inr [OF assms, of "[]"]
    by (simp add: do_create_drafts_def Draft_objects_bulk_create_def Let_def)
qed

lemma create_drafts_view:
  assumes "REQ_drafts env req = Inr draft_dicts" and "enable_drafts_synchronization u"
  shows "do_create_drafts env draft_dicts u d = (Inl e, d') \<Longrightarrow>
           create_drafts env req u d = (Inl e, d')"
    and "do_create_drafts env draft_dicts u d = (Inr created, d') \<Longrightarrow>
           create_drafts env req u d = (Inr (json_success (DraftIds (map fst created))), d')"
  using assms by (simp_all add: create_drafts_def draft_endpoint_def)

text \<open>
  C1: for a request of a user with syncing enabled whose \<^verbatim>\<open>drafts\<close> variable holds
  structurally valid dictionaries: if the normalization of an entry fails and every
  entry before it passes, \<^verbatim>\<open>do_create_drafts\<close> and the view raise the error of that
  entry and return the database as it was, with no ids; if any entry fails, the error
  raised is that of a failing entry and the database is as it was; if every entry
  passes, the drafts built from the normalized entries are appended in one
  \<^verbatim>\<open>bulk_create\<close>, in the order of the payloads, and the view returns their ids in that
  order.
\<close>

theorem create_drafts_all_or_nothing:
  assumes "\<forall>x\<in>set draft_dicts. draft_dict_validator x"
    and "REQ_drafts env req = Inr draft_dicts"
    and "enable_drafts_synchronization u"
  shows
    "(\<forall>i e. i < length draft_dicts \<and>
        (\<forall>j<i. \<exists>n. further_validated_draft_dict env (draft_dicts ! j) u = Inr n) \<and>
        further_validated_draft_dict env (draft_dicts ! i) u = Inl e \<longrightarrow>
          do_create_drafts env draft_dicts u d = (Inl e, d) \<and>
          create_drafts env req u d = (Inl e, d)) \<and>
     ((\<exists>x\<in>set draft_dicts. \<exists>e. further_validated_draft_dict env x u = Inl e) \<longrightarrow>
        (\<exists>e. (\<exists>x\<in>set draft_dicts. further_validated_draft_dict env x u = Inl e) \<and>
           do_create_drafts env draft_dicts u d = (Inl e, d) \<and>
           create_drafts env req u d = (Inl e, d))) \<and>
     (\<forall>ns. map (\<lambda>x. further_validated_draft_dict env x u) draft_dicts = map Inr ns \<longrightarrow>
        (let ids = map (\<lambda>k. next_id d + int k) [0 ..< length draft_dicts];
             created = zip ids (map (new_Draft u) ns);
             d' = d\<lparr>drafts := drafts d @ created,
                    next_id := next_id d + int (length draft_dicts)\<rparr>
         in do_create_drafts env draft_dicts u d = (Inr created, d') \<and>
            create_drafts env req u d = (Inr (json_success (DraftIds ids)), d') \<and>
            length ids = length draft_dicts \<and> map fst created = ids))"
proof (intro conjI allI impI)
  fix i e
  assume "i < length draft_dicts \<and>
        (\<forall>j<i. \<exists>n. further_validated_draft_dict env (draft_dicts ! j) u = Inr n) \<and>
        further_validated_draft_dict env (draft_dicts ! i) u = Inl e"
  then have "create_loop env u draft_dicts [] = Inl e"
    by (intro create_loop_Inl_nth) blast+
  then show "do_create_drafts env draft_dicts u d = (Inl e, d)"
    by (rule do_create_drafts_Inl)
  then show "create_drafts env req u d = (Inl e, d)"
    by (rule create_drafts_view(1) [OF assms(2,3)])
next
  assume "\<exists>x\<in>set draft_dicts. \<exists>e. further_validated_draft_dict env x u = Inl e"
  then obtain e where e: "create_loop env u draft_dicts [] = Inl e"
    using create_loop_fails by blast
  then have "do_create_drafts env draft_dicts u d = (Inl e, d)"
    by (rule do_create_drafts_Inl)
  moreover from this have "create_drafts env req u d = (Inl e, d)"
    by (rule create_drafts_view(1) [OF assms(2,3)])
  moreover have "\<exists>x\<in>set draft_dicts. further_validated_draft_dict env x u = Inl e"
    using e by (rule create_loop_Inl_source)
  ultimately show "\<exists>e. (\<exists>x\<in>set draft_dicts. further_validated_draft_dict env x u = Inl e) \<and>
           do_create_drafts env draft_dicts u d = (Inl e, d) \<and>
           create_drafts env req u d = (Inl e, d)"
    by blast
next
  fix ns
  assume ns: "map (\<lambda>x. further_validated_draft_dict env x u) draft_dicts = map Inr ns"
  define ids where "ids = map (\<lambda>k. next_id d + int k) [0 ..< length draft_dicts]"
  define created where "created = zip ids (map (new_Draft u) ns)"
  define d' where "d' = d\<lparr>drafts := drafts d @ created,
                    next_id := next_id d + int (length draft_dicts)\<rparr>"
  have len: "length ns = length draft_dicts" using ns by (metis length_map)
  have ids: "map fst created = ids" by (simp add: created_def ids_def len)
  have lib: "do_create_drafts env draft_dicts u d = (Inr created, d')"
    unfolding created_def d'_def ids_def by (rule do_create_drafts_Inr [OF ns])
  have view: "create_drafts env req u d = (Inr (json_success (DraftIds ids)), d')"
    using create_drafts_view(2) [OF assms(2,3) lib] by (simp only: ids)
  have "length ids = length draft_dicts" by (simp add: ids_def)
  with lib view ids
  show "let ids = map (\<lambda>k. next_id d + int k) [0 ..< length draft_dicts];
             created = zip ids (map (new_Draft u) ns);
             d' = d\<lparr>drafts := drafts d @ created,
                    next_id := next_id d + int (length draft_dicts)\<rparr>
         in do_create_drafts env draft_dicts u d = (Inr created, d') \<and>
            create_drafts env req u d = (Inr (json_success (DraftIds ids)), d') \<and>
            length ids = length draft_dicts \<and> map fst created = ids"
    unfolding Let_def created_def d'_def ids_def by blast
qed

theorem create_drafts_all_or_nothing_witness:
  "list_all draft_dict_validator good_batch \<and> list_all draft_dict_validator bad_batch \<and>
   enable_drafts_synchronization alice \<and>
   create_drafts (sample_env\<lparr>REQ_drafts := \<lambda>r. Inr good_batch\<rparr>) sample_request alice
       sample_db =
     (Inr (json_success (DraftIds [4, 5, 6])),
      sample_db\<lparr>drafts := drafts sample_db @
          [(4, \<lparr>user_profile_id = 1, recipient = None, topic = '''', content = ''hi'',
                 last_edit_time = 1600000000\<rparr>),
           (5, \<lparr>user_profile_id = 1, recipient = Some 102, topic = '''', content = ''hi'',
                 last_edit_time = 7\<rparr>),
           (6, \<lparr>user_profile_id = 1, recipient = None, topic = '''', content = ''hi'',
                 last_edit_time = 0\<rparr>)],
        next_id := 7\<rparr>) \<and>
   further_validated_draft_dict sample_env (bad_batch ! 2) alice =
     Inl (JsonableError ''Must specify exactly 1 stream ID for stream messages'') \<and>
   create_drafts (sample_env\<lparr>REQ_drafts := \<lambda>r. Inr bad_batch\<rparr>) sample_request alice
       sample_db =
     (Inl (JsonableError ''Content must not contain null bytes''), sample_db)"
proof -
  let ?G = "sample_env\<lparr>REQ_drafts := \<lambda>r. Inr good_batch\<rparr>"
  let ?B = "sample_env\<lparr>REQ_drafts := \<lambda>r. Inr bad_batch\<rparr>"
  have vg: "\<forall>x\<in>set good_batch. draft_dict_validator x"
    and vb: "\<forall>x\<in>set bad_batch. draft_dict_validator x"
    by (simp_all add: good_batch_def bad_batch_def private_no_recipient_def
        private_null_topic_def zero_timestamp_def null_before_cut_def stream_two_ids_def
        validator_defs)
  have en: "enable_drafts_synchronization alice" by (simp add: alice_def)
  have rg: "REQ_drafts ?G sample_request = Inr good_batch"
    and rb: "REQ_drafts ?B sample_request = Inr bad_batch"
    by simp_all
  have ns: "map (\<lambda>x. further_validated_draft_dict ?G x alice) good_batch =
      map Inr
        [\<lparr>vd_recipient = None, vd_topic = '''', vd_content = ''hi'',
          vd_last_edit_time = 1600000000\<rparr>,
         \<lparr>vd_recipient = Some 102, vd_topic = '''', vd_content = ''hi'',
          vd_last_edit_time = 7\<rparr>,
         \<lparr>vd_recipient = None, vd_topic = '''', vd_content = ''hi'',
          vd_last_edit_time = 0\<rparr>]"
    by code_simp
  have len: "length good_batch = 3" by (simp add: good_batch_def)
  have up: "[0 ..< 3] = [0, 1, 2]" by (simp add: upt_rec)
  have good: "create_drafts ?G sample_request alice sample_db =
     (Inr (json_success (DraftIds [4, 5, 6])),
      sample_db\<lparr>drafts := drafts sample_db @
          [(4, \<lparr>user_profile_id = 1, recipient = None, topic = '''', content = ''hi'',
                 last_edit_time = 1600000000\<rparr>),
           (5, \<lparr>user_profile_id = 1, recipient = Some 102, topic = '''', content = ''hi'',
                 last_edit_time = 7\<rparr>),
           (6, \<lparr>user_profile_id = 1, recipient = None, topic = '''', content = ''hi'',
                 last_edit_time = 0\<rparr>)],
        next_id := 7\<rparr>)"
  proof -
    have nid: "next_id sample_db = 4" by (simp add: sample_db_def)
    have uid: "user_id alice = 1" by (simp add: alice_def)
    have "\<forall>ns. map (\<lambda>x. further_validated_draft_dict ?G x alice) good_batch = map Inr ns \<longrightarrow>
        (let ids = map (\<lambda>k. next_id sample_db + int k) [0 ..< length good_batch];
             created = zip ids (map (new_Draft alice) ns);
             d' = sample_db\<lparr>drafts := drafts sample_db @ created,
                    next_id := next_id sample_db + int (length good_batch)\<rparr>
         in do_create_drafts ?G good_batch alice sample_db = (Inr created, d') \<and>
            create_drafts ?G sample_request alice sample_db =
              (Inr (json_success (DraftIds ids)), d') \<and>
            length ids = length good_batch \<and> map fst created = ids)"
      using create_drafts_all_or_nothing [OF vg rg en, of sample_db] by blast
    from this [rule_format, OF ns] show ?thesis
      by (simp add: Let_def len up nid uid)
  qed
  have b0: "\<forall>j<1. \<exists>n. further_validated_draft_dict ?B (bad_batch ! j) alice = Inr n"
  proof -
    have "further_validated_draft_dict ?B (bad_batch ! 0) alice =
        Inr \<lparr>vd_recipient = None, vd_topic = '''', vd_content = ''hi'',
          vd_last_edit_time = 1600000000\<rparr>"
      by code_simp
    then show ?thesis by simp
  qed
  have b1: "further_validated_draft_dict ?B (bad_batch ! 1) alice =
      Inl (JsonableError ''Content must not contain null bytes'')"
    by code_simp
  have b2: "further_validated_draft_dict sample_env (bad_batch ! 2) alice =
     Inl (JsonableError ''Must specify exactly 1 stream ID for stream messages'')"
    by code_simp
  have lb: "1 < length bad_batch" by (simp add: bad_batch_def)
  have bad: "create_drafts ?B sample_request alice sample_db =
     (Inl (JsonableError ''Content must not contain null bytes''), sample_db)"
    using create_drafts_all_or_nothing [OF vb rb en, of sample_db] lb b0 b1 by blast
  show ?thesis
    using vg vb en good bad b2 by (simp add: list_all_iff)
qed

subsection \<open>Lookups are scoped to the owner\<close>

lemma filter_eq_singleton:
  "distinct xs \<Longrightarrow> y \<in> set xs \<Longrightarrow> filter (\<lambda>x. x = y) xs = [y]"
proof (induction xs)
  case Nil
  then show ?case by simp
next
  case (Cons x xs)
  show ?case
  proof (cases "x = y")
    case True
    then have "y \<notin> set xs" using Cons.prems(1) by simp
    then have "filter (\<lambda>x. x = y) xs = []" by (auto simp add: filter_empty_conv)
    then show ?thesis using True by simp
  next
    case False
    then show ?thesis using Cons by simp
  qed
qed

lemma Draft_objects_get_other_user:
  assumes "distinct (map fst (drafts d))"
    and "(draft_id, row) \<in> set (drafts d)"
    and "user_profile_id row \<noteq> user_id b"
  shows "Draft_objects_get draft_id b d = Inl DoesNotExist"
proof -
  have "\<not> (i = draft_id \<and> user_profile_id r = user_id b)" if "(i, r) \<in> set (drafts d)" for i r
  proof
    assume "i = draft_id \<and> user_profile_id r = user_id b"
    then have "(draft_id, r) \<in> set (drafts d)" and o: "user_profile_id r = user_id b"
      using that by simp_all
    then have "r = row"
      using assms(1,2) by (meson eq_key_imp_eq_value)
    then show False using o assms(3) by simp
  qed
  then have "filter (\<lambda>(i, r). i = draft_id \<and> user_profile_id r = user_id b) (drafts d) = []"
    by (auto simp add: filter_empty_conv)
  then show ?thesis by (simp add: Draft_objects_get_def)
qed

lemma Draft_objects_get_absent:
  assumes "draft_id \<notin> fst ` set (drafts d)"
  shows "Draft_objects_get draft_id b d = Inl DoesNotExist"
proof -
  have "filter (\<lambda>(i, r). i = draft_id \<and> user_profile_id r = user_id b) (drafts d) = []"
    using assms by (force simp add: filter_empty_conv)
  then show ?thesis by (simp add: Draft_objects_get_def)
qed

lemma Draft_objects_get_own:
  assumes "distinct (map fst (drafts d))"
    and "(draft_id, row) \<in> set (drafts d)"
    and "user_profile_id row = user_id a"
  shows "Draft_objects_get draft_id a d = Inr (draft_id, row)"
proof -
  have "filter (\<lambda>(i, r). i = draft_id \<and> user_profile_id r = user_id a) (drafts d) =
      filter (\<lambda>x. x = (draft_id, row)) (drafts d)"
  proof (rule filter_cong [OF refl])
    fix x assume x: "x \<in> set (drafts d)"
    obtain i r where xr: "x = (i, r)" by (cases x)
    have "i = draft_id \<Longrightarrow> r = row"
      using x xr assms(1,2) by (metis eq_key_imp_eq_value)
    then show "(case x of (i, r) \<Rightarrow> i = draft_id \<and> user_profile_id r = user_id a) =
        (x = (draft_id, row))"
      using xr assms(3) by auto
  qed
  moreover have "distinct (drafts d)"
    using assms(1) by (simp add: distinct_map)
  then have "filter (\<lambda>x. x = (draft_id, row)) (drafts d) = [(draft_id, row)]"
    using assms(2) by (rule filter_eq_singleton)
  ultimately show ?thesis by (simp add: Draft_objects_get_def)
qed

text \<open>
  C2: in a draft table with unique primary keys, a user other than the owner of a
  draft finds nothing under its id: the lookup raises \<^verbatim>\<open>DoesNotExist\<close>, editing and
  deleting raise the error that the draft does not exist, the two views answer with
  that message and status 404, and the database (the draft included) is returned as it
  was.
\<close>

theorem other_users_draft_not_found:
  assumes "distinct (map fst (drafts d))"
    and "(draft_id, row) \<in> set (drafts d)"
    and "user_profile_id row = user_id a"
    and "user_id b \<noteq> user_id a"
  shows "Draft_objects_get draft_id b d = Inl DoesNotExist \<and>
    do_edit_draft env draft_id draft_dict b d =
      (Inl (JsonableError ''Draft does not exist''), d) \<and>
    do_delete_draft draft_id b d = (Inl (JsonableError ''Draft does not exist''), d) \<and>
    (enable_drafts_synchronization b \<and> REQ_draft env req = Inr draft_dict \<longrightarrow>
       edit_draft env draft_id req b d =
         (Inr (json_error ''Draft does not exist'' 404), d)) \<and>
    (enable_drafts_synchronization b \<longrightarrow>
       delete_draft draft_id req b d = (Inr (json_error ''Draft does not exist'' 404), d)) \<and>
    (draft_id, row) \<in> set (drafts (snd (do_edit_draft env draft_id draft_dict b d))) \<and>
    (draft_id, row) \<in> set (drafts (snd (do_delete_draft draft_id b d)))"
proof -
  have "user_profile_id row \<noteq> user_id b" using assms(3,4) by simp
  then have g: "Draft_objects_get draft_id b d = Inl DoesNotExist"
    by (rule Draft_objects_get_other_user [OF assms(1,2)])
  then have e: "do_edit_draft env draft_id draft_dict b d =
      (Inl (JsonableError ''Draft does not exist''), d)"
    and x: "do_delete_draft draft_id b d = (Inl (JsonableError ''Draft does not exist''), d)"
    by (simp_all add: do_edit_draft_def do_delete_draft_def)
  have "edit_draft env draft_id req b d =
         (Inr (json_error ''Draft does not exist'' 404), d)"
    if "enable_drafts_synchronization b \<and> REQ_draft env req = Inr draft_dict"
    using that e by (simp add: edit_draft_def draft_endpoint_def)
  moreover have "delete_draft draft_id req b d =
      (Inr (json_error ''Draft does not exist'' 404), d)"
    if "enable_drafts_synchronization b"
    using that x by (simp add: delete_draft_def draft_endpoint_def)
  ultimately show ?thesis using g e x assms(2) by simp
qed

theorem other_users_draft_not_found_witness:
  "distinct (map fst (drafts sample_db)) \<and>
   (1, \<lparr>user_profile_id = 1, recipient = None, topic = '''', content = ''hello'',
        last_edit_time = 10\<rparr>) \<in> set (drafts sample_db) \<and>
   user_id bob \<noteq> user_id alice \<and>
   do_edit_draft sample_env 1 private_no_recipient bob sample_db =
     (Inl (JsonableError ''Draft does not exist''), sample_db) \<and>
   do_delete_draft 1 bob sample_db = (Inl (JsonableError ''Draft does not exist''), sample_db) \<and>
   edit_draft (sample_env\<lparr>REQ_draft := \<lambda>r. Inr private_no_recipient\<rparr>) 1 sample_request bob
       sample_db =
     (Inr (json_error ''Draft does not exist'' 404), sample_db) \<and>
   delete_draft 1 sample_request bob sample_db =
     (Inr (json_error ''Draft does not exist'' 404), sample_db) \<and>
   fst (do_edit_draft sample_env 1 private_no_recipient alice sample_db) = Inr () \<and>
   fst (do_delete_draft 1 alice sample_db) = Inr ()"
proof -
  let ?row = "\<lparr>user_profile_id = 1, recipient = None, topic = '''', content = ''hello'',
        last_edit_time = 10\<rparr>"
  let ?E = "sample_env\<lparr>REQ_draft := \<lambda>r. Inr private_no_recipient\<rparr>"
  have k: "distinct (map fst (drafts sample_db))"
    and m: "(1, ?row) \<in> set (drafts sample_db)"
    by (simp_all add: sample_db_def)
  have o: "user_profile_id ?row = user_id alice"
    and n: "user_id bob \<noteq> user_id alice"
    and en: "enable_drafts_synchronization bob"
    by (simp_all add: alice_def bob_def)
  have rq: "REQ_draft ?E sample_request = Inr private_no_recipient" by simp
  have own: "fst (do_edit_draft sample_env 1 private_no_recipient alice sample_db) = Inr ()"
    "fst (do_delete_draft 1 alice sample_db) = Inr ()"
    by code_simp+
  show ?thesis
    using k m n en rq own
      other_users_draft_not_found [OF k m o n, of sample_env private_no_recipient]
      other_users_draft_not_found [OF k m o n, of ?E private_no_recipient sample_request]
    by simp
qed

subsection \<open>Switching synchronization on and off\<close>

text \<open>
  C9: for a user with a row in the user table, disabling sets the flag of the object and
  of the row to false, leaves every other field of the row and every other row as they
  were, and removes exactly the drafts of that user; enabling sets the flag of the
  object and of the row to true and changes nothing else, the draft table included.
\<close>

theorem sync_toggles_frame:
  assumes "users d (user_id u) = Some row"
  shows "do_disable_drafts_syncing u d =
      (Inr (), u\<lparr>enable_drafts_synchronization := False\<rparr>,
       d\<lparr>users := (users d)(user_id u \<mapsto> row\<lparr>enable_drafts_synchronization := False\<rparr>),
         drafts := filter (\<lambda>(i, r). user_profile_id r \<noteq> user_id u) (drafts d)\<rparr>) \<and>
    do_enable_drafts_syncing u d =
      (Inr (), u\<lparr>enable_drafts_synchronization := True\<rparr>,
       d\<lparr>users := (users d)(user_id u \<mapsto> row\<lparr>enable_drafts_synchronization := True\<rparr>)\<rparr>) \<and>
    (\<forall>x. x \<in> set (drafts (snd (snd (do_disable_drafts_syncing u d)))) \<longleftrightarrow>
       x \<in> set (drafts d) \<and> user_profile_id (snd x) \<noteq> user_id u) \<and>
    drafts (snd (snd (do_enable_drafts_syncing u d))) = drafts d \<and>
    (\<forall>k. k \<noteq> user_id u \<longrightarrow>
       users (snd (snd (do_disable_drafts_syncing u d))) k = users d k \<and>
       users (snd (snd (do_enable_drafts_syncing u d))) k = users d k) \<and>
    users (snd (snd (do_disable_drafts_syncing u d))) (user_id u) =
      Some (row\<lparr>enable_drafts_synchronization := False\<rparr>) \<and>
    users (snd (snd (do_enable_drafts_syncing u d))) (user_id u) =
      Some (row\<lparr>enable_drafts_synchronization := True\<rparr>)"
proof -
  have dis: "do_disable_drafts_syncing u d =
      (Inr (), u\<lparr>enable_drafts_synchronization := False\<rparr>,
       d\<lparr>users := (users d)(user_id u \<mapsto> row\<lparr>enable_drafts_synchronization := False\<rparr>),
         drafts := filter (\<lambda>(i, r). user_profile_id r \<noteq> user_id u) (drafts d)\<rparr>)"
    using assms
    by (simp add: do_disable_drafts_syncing_def user_profile_save_update_fields_def
        Draft_objects_filter_delete_def)
  have en: "do_enable_drafts_syncing u d =
      (Inr (), u\<lparr>enable_drafts_synchronization := True\<rparr>,
       d\<lparr>users := (users d)(user_id u \<mapsto> row\<lparr>enable_drafts_synchronization := True\<rparr>)\<rparr>)"
    using assms
    by (simp add: do_enable_drafts_syncing_def user_profile_save_update_fields_def)
  show ?thesis
    unfolding dis en by auto
qed

theorem sync_toggles_frame_witness:
  "users sample_db (user_id (alice\<lparr>realm := 99\<rparr>)) =
     Some \<lparr>user_id = 1, realm = 1, enable_drafts_synchronization = True\<rparr> \<and>
   fst (do_disable_drafts_syncing (alice\<lparr>realm := 99\<rparr>) sample_db) = Inr () \<and>
   fst (snd (do_disable_drafts_syncing (alice\<lparr>realm := 99\<rparr>) sample_db)) =
     \<lparr>user_id = 1, realm = 99, enable_drafts_synchronization = False\<rparr> \<and>
   users (snd (snd (do_disable_drafts_syncing (alice\<lparr>realm := 99\<rparr>) sample_db))) 1 =
     Some \<lparr>user_id = 1, realm = 1, enable_drafts_synchronization = False\<rparr> \<and>
   users (snd (snd (do_disable_drafts_syncing (alice\<lparr>realm := 99\<rparr>) sample_db))) 2 =
     users sample_db 2 \<and>
   drafts (snd (snd (do_disable_drafts_syncing (alice\<lparr>realm := 99\<rparr>) sample_db))) =
     [(2, \<lparr>user_profile_id = 2, recipient = Some 50, topic = ''t'', content = ''bye'',
           last_edit_time = 20\<rparr>)] \<and>
   users (snd (snd (do_enable_drafts_syncing (alice\<lparr>realm := 99\<rparr>) sample_db))) 1 =
     Some \<lparr>user_id = 1, realm = 1, enable_drafts_synchronization = True\<rparr> \<and>
   drafts (snd (snd (do_enable_drafts_syncing (alice\<lparr>realm := 99\<rparr>) sample_db))) =
     drafts sample_db"
proof -
  let ?u = "alice\<lparr>realm := 99\<rparr>"
  let ?row = "\<lparr>user_id = 1, realm = 1, enable_drafts_synchronization = True\<rparr>"
  have r: "users sample_db (user_id ?u) = Some ?row"
    by (simp add: sample_db_def sample_users_def alice_def)
  have i: "user_id ?u = 1" by (simp add: alice_def)
  have f: "filter (\<lambda>(i, r). user_profile_id r \<noteq> 1) (drafts sample_db) =
     [(2, \<lparr>user_profile_id = 2, recipient = Some 50, topic = ''t'', content = ''bye'',
           last_edit_time = 20\<rparr>)]"
    by (simp add: sample_db_def)
  have a: "?u\<lparr>enable_drafts_synchronization := False\<rparr> =
      \<lparr>user_id = 1, realm = 99, enable_drafts_synchronization = False\<rparr>"
    by (simp add: alice_def)
  show ?thesis
    using r sync_toggles_frame [OF r]
    by (simp add: i f a)
qed

text \<open>Without a row for the user the update raises, and no draft is deleted.\<close>

lemma sync_toggles_without_row:
  assumes "users d (user_id u) = None"
  shows "do_disable_drafts_syncing u d =
      (Inl (DatabaseError ''Save with update_fields did not affect any rows.''),
       u\<lparr>enable_drafts_synchronization := False\<rparr>, d)"
    and "do_enable_drafts_syncing u d =
      (Inl (DatabaseError ''Save with update_fields did not affect any rows.''),
       u\<lparr>enable_drafts_synchronization := True\<rparr>, d)"
  using assms
  by (simp_all add: do_disable_drafts_syncing_def do_enable_drafts_syncing_def
      user_profile_save_update_fields_def)

subsection \<open>The synchronization gate\<close>

text \<open>
  C3: for a user whose flag is false, \<^verbatim>\<open>draft_endpoint\<close> raises the error that syncing is
  not enabled whatever view it wraps, and so do the four views, whatever the request
  holds (its variables are not parsed or validated) and whatever the database holds
  (it is returned as it was). For a user whose flag is true the gate passes every view
  on to its body: listing returns the drafts of the user in the order of their times,
  creating parses the request and runs \<^verbatim>\<open>do_create_drafts\<close>, editing parses the request
  and runs \<^verbatim>\<open>do_edit_draft\<close>, deleting runs \<^verbatim>\<open>do_delete_draft\<close>. Once
  \<^verbatim>\<open>do_enable_drafts_syncing\<close> has run for a user with a row in the user table, the flag
  of the object and of the stored row is true, so that the four views are reached.
\<close>

theorem sync_gate_comes_first:
  "(\<not> enable_drafts_synchronization u \<longrightarrow>
      (\<forall>view_func. draft_endpoint view_func req u d =
         (Inl (JsonableError ''User has not enabled drafts syncing.''), d)) \<and>
      fetch_drafts req u d =
        (Inl (JsonableError ''User has not enabled drafts syncing.''), d) \<and>
      create_drafts env req u d =
        (Inl (JsonableError ''User has not enabled drafts syncing.''), d) \<and>
      edit_draft env draft_id req u d =
        (Inl (JsonableError ''User has not enabled drafts syncing.''), d) \<and>
      delete_draft draft_id req u d =
        (Inl (JsonableError ''User has not enabled drafts syncing.''), d)) \<and>
   (enable_drafts_synchronization u \<longrightarrow>
      (\<forall>view_func. draft_endpoint view_func req u d = view_func req u d) \<and>
      fetch_drafts req u d =
        (Inr (json_success
           (DraftList
              (length (sort_key (\<lambda>(i, r). last_edit_time r) (Draft_objects_filter u d)))
              (sort_key (\<lambda>(i, r). last_edit_time r) (Draft_objects_filter u d)))), d) \<and>
      create_drafts env req u d =
        (case REQ_drafts env req of
           Inl e \<Rightarrow> (Inl e, d)
         | Inr draft_dicts \<Rightarrow>
             (case do_create_drafts env draft_dicts u d of
                (Inl e, d') \<Rightarrow> (Inl e, d')
              | (Inr created_draft_objects, d') \<Rightarrow>
                  (Inr (json_success (DraftIds (map fst created_draft_objects))), d'))) \<and>
      edit_draft env draft_id req u d =
        (case REQ_draft env req of
           Inl e \<Rightarrow> (Inl e, d)
         | Inr draft_dict \<Rightarrow>
             (case do_edit_draft env draft_id draft_dict u d of
                (Inl (JsonableError err), d') \<Rightarrow> (Inr (json_error err 404), d')
              | (Inl e, d') \<Rightarrow> (Inl e, d')
              | (Inr _, d') \<Rightarrow> (Inr (json_success NoData), d'))) \<and>
      delete_draft draft_id req u d =
        (case do_delete_draft draft_id u d of
           (Inl (JsonableError err), d') \<Rightarrow> (Inr (json_error err 404), d')
         | (Inl e, d') \<Rightarrow> (Inl e, d')
         | (Inr _, d') \<Rightarrow> (Inr (json_success NoData), d'))) \<and>
   (\<forall>row. users d (user_id u) = Some row \<longrightarrow>
      (\<exists>u' d' row'. do_enable_drafts_syncing u d = (Inr (), u', d') \<and>
         users d' (user_id u) = Some row' \<and>
         enable_drafts_synchronization u' \<and> enable_drafts_synchronization row' \<and>
         (\<forall>view_func. draft_endpoint view_func req u' d' = view_func req u' d') \<and>
         (\<forall>view_func. draft_endpoint view_func req row' d' = view_func req row' d')))"
proof (intro conjI impI allI)
  fix row assume "users d (user_id u) = Some row"
  then have "do_enable_drafts_syncing u d =
      (Inr (), u\<lparr>enable_drafts_synchronization := True\<rparr>,
       d\<lparr>users := (users d)(user_id u \<mapsto> row\<lparr>enable_drafts_synchronization := True\<rparr>)\<rparr>)"
    by (simp add: do_enable_drafts_syncing_def user_profile_save_update_fields_def)
  then show "\<exists>u' d' row'. do_enable_drafts_syncing u d = (Inr (), u', d') \<and>
         users d' (user_id u) = Some row' \<and>
         enable_drafts_synchronization u' \<and> enable_drafts_synchronization row' \<and>
         (\<forall>view_func. draft_endpoint view_func req u' d' = view_func req u' d') \<and>
         (\<forall>view_func. draft_endpoint view_func req row' d' = view_func req row' d')"
    by (simp add: draft_endpoint_def)
qed (simp_all add: draft_endpoint_def fetch_drafts_def create_drafts_def edit_draft_def
    delete_draft_def Let_def)

theorem sync_gate_comes_first_witness:
  "\<not> enable_drafts_synchronization alice_off \<and>
   users db_off (user_id alice_off) =
     Some \<lparr>user_id = 1, realm = 1, enable_drafts_synchronization = False\<rparr> \<and>
   fetch_drafts sample_request alice_off db_off =
     (Inl (JsonableError ''User has not enabled drafts syncing.''), db_off) \<and>
   create_drafts (sample_env\<lparr>REQ_drafts := \<lambda>r. Inr good_batch\<rparr>) sample_request alice_off
       db_off =
     (Inl (JsonableError ''User has not enabled drafts syncing.''), db_off) \<and>
   create_drafts sample_env sample_request alice_off db_off =
     (Inl (JsonableError ''User has not enabled drafts syncing.''), db_off) \<and>
   edit_draft sample_env 2 sample_request alice_off db_off =
     (Inl (JsonableError ''User has not enabled drafts syncing.''), db_off) \<and>
   delete_draft 2 sample_request alice_off db_off =
     (Inl (JsonableError ''User has not enabled drafts syncing.''), db_off) \<and>
   enable_drafts_synchronization alice_on \<and>
   users db_on (user_id alice_off) =
     Some \<lparr>user_id = 1, realm = 1, enable_drafts_synchronization = True\<rparr> \<and>
   fst (fetch_drafts sample_request alice_on db_on) = Inr (json_success (DraftList 0 [])) \<and>
   fst (create_drafts sample_env sample_request alice_on db_on) =
     Inl (JsonableError ''Missing drafts argument'') \<and>
   fst (create_drafts (sample_env\<lparr>REQ_drafts := \<lambda>r. Inr good_batch\<rparr>) sample_request
          alice_on db_on) =
     Inr (json_success (DraftIds [4, 5, 6])) \<and>
   fst (fetch_drafts sample_request alice_on db_created) =
     Inr (json_success (DraftList 3
       [(6, \<lparr>user_profile_id = 1, recipient = None, topic = '''', content = ''hi'',
             last_edit_time = 0\<rparr>),
        (5, \<lparr>user_profile_id = 1, recipient = Some 102, topic = '''', content = ''hi'',
             last_edit_time = 7\<rparr>),
        (4, \<lparr>user_profile_id = 1, recipient = None, topic = '''', content = ''hi'',
             last_edit_time = 1600000000\<rparr>)])) \<and>
   fst (edit_draft (sample_env\<lparr>REQ_draft := \<lambda>r. Inr fractional_timestamp\<rparr>) 4
          sample_request alice_on db_created) =
     Inr (json_success NoData) \<and>
   drafts (snd (edit_draft (sample_env\<lparr>REQ_draft := \<lambda>r. Inr fractional_timestamp\<rparr>) 4
                  sample_request alice_on db_created)) =
     [(2, \<lparr>user_profile_id = 2, recipient = Some 50, topic = ''t'', content = ''bye'',
           last_edit_time = 20\<rparr>),
      (4, \<lparr>user_profile_id = 1, recipient = None, topic = '''', content = ''hi'',
           last_edit_time = 1600000000 + 1 / 4\<rparr>),
      (5, \<lparr>user_profile_id = 1, recipient = Some 102, topic = '''', content = ''hi'',
           last_edit_time = 7\<rparr>),
      (6, \<lparr>user_profile_id = 1, recipient = None, topic = '''', content = ''hi'',
           last_edit_time = 0\<rparr>)] \<and>
   fst (delete_draft 5 sample_request alice_on db_created) = Inr (json_success NoData) \<and>
   drafts (snd (delete_draft 5 sample_request alice_on db_created)) =
     [(2, \<lparr>user_profile_id = 2, recipient = Some 50, topic = ''t'', content = ''bye'',
           last_edit_time = 20\<rparr>),
      (4, \<lparr>user_profile_id = 1, recipient = None, topic = '''', content = ''hi'',
           last_edit_time = 1600000000\<rparr>),
      (6, \<lparr>user_profile_id = 1, recipient = None, topic = '''', content = ''hi'',
           last_edit_time = 0\<rparr>)] \<and>
   fst (fetch_drafts sample_request alice sample_db) =
     Inr (json_success (DraftList 2
       [(3, \<lparr>user_profile_id = 1, recipient = Some 50, topic = ''u'', content = ''again'',
             last_edit_time = 5\<rparr>),
        (1, \<lparr>user_profile_id = 1, recipient = None, topic = '''', content = ''hello'',
             last_edit_time = 10\<rparr>)]))"
proof -
  let ?G = "sample_env\<lparr>REQ_drafts := \<lambda>r. Inr good_batch\<rparr>"
  let ?E = "sample_env\<lparr>REQ_draft := \<lambda>r. Inr fractional_timestamp\<rparr>"
  have off: "\<not> enable_drafts_synchronization alice_off"
    by (simp add: alice_off_def do_disable_drafts_syncing_def Let_def split_beta
        split: sum.splits)
  have row: "users db_off (user_id alice_off) =
     Some \<lparr>user_id = 1, realm = 1, enable_drafts_synchronization = False\<rparr>"
    by (simp add: alice_off_def db_off_def do_disable_drafts_syncing_def Let_def
        user_profile_save_update_fields_def Draft_objects_filter_delete_def
        sample_db_def sample_users_def alice_def)
  note g1 = sync_gate_comes_first
    [where u = alice_off and req = sample_request and d = db_off and env = ?G
      and draft_id = 2, THEN conjunct1]
  note g2 = sync_gate_comes_first
    [where u = alice_off and req = sample_request and d = db_off and env = sample_env
      and draft_id = 2]
  have gate: "fetch_drafts sample_request alice_off db_off =
     (Inl (JsonableError ''User has not enabled drafts syncing.''), db_off)"
    "create_drafts ?G sample_request alice_off db_off =
     (Inl (JsonableError ''User has not enabled drafts syncing.''), db_off)"
    "create_drafts sample_env sample_request alice_off db_off =
     (Inl (JsonableError ''User has not enabled drafts syncing.''), db_off)"
    "edit_draft sample_env 2 sample_request alice_off db_off =
     (Inl (JsonableError ''User has not enabled drafts syncing.''), db_off)"
    "delete_draft 2 sample_request alice_off db_off =
     (Inl (JsonableError ''User has not enabled drafts syncing.''), db_off)"
    using off g1 g2 [THEN conjunct1] by blast+
  have "\<exists>u' d' row'. do_enable_drafts_syncing alice_off db_off = (Inr (), u', d') \<and>
         users d' (user_id alice_off) = Some row' \<and>
         enable_drafts_synchronization u' \<and> enable_drafts_synchronization row'"
    using row g2 [THEN conjunct2, THEN conjunct2] by blast
  then have on: "enable_drafts_synchronization alice_on"
    by (auto simp add: alice_on_def)
  have row_on: "users db_on (user_id alice_off) =
     Some \<lparr>user_id = 1, realm = 1, enable_drafts_synchronization = True\<rparr>"
    using row
    by (simp add: db_on_def do_enable_drafts_syncing_def user_profile_save_update_fields_def)
  note open_created = sync_gate_comes_first
    [where u = alice_on and req = sample_request and d = db_created, THEN conjunct2,
      THEN conjunct1, rule_format, OF on]
  have v1: "fst (fetch_drafts sample_request alice_on db_on) =
      Inr (json_success (DraftList 0 []))"
    and v2: "fst (create_drafts sample_env sample_request alice_on db_on) =
     Inl (JsonableError ''Missing drafts argument'')"
    by code_simp+
  have ev: "fst (create_drafts ?G sample_request alice_on db_on) =
     Inr (json_success (DraftIds [4, 5, 6]))"
    "fst (fetch_drafts sample_request alice_on db_created) =
     Inr (json_success (DraftList 3
       [(6, \<lparr>user_profile_id = 1, recipient = None, topic = '''', content = ''hi'',
             last_edit_time = 0\<rparr>),
        (5, \<lparr>user_profile_id = 1, recipient = Some 102, topic = '''', content = ''hi'',
             last_edit_time = 7\<rparr>),
        (4, \<lparr>user_profile_id = 1, recipient = None, topic = '''', content = ''hi'',
             last_edit_time = 1600000000\<rparr>)]))"
    "fst (fetch_drafts sample_request alice sample_db) =
     Inr (json_success (DraftList 2
       [(3, \<lparr>user_profile_id = 1, recipient = Some 50, topic = ''u'', content = ''again'',
             last_edit_time = 5\<rparr>),
        (1, \<lparr>user_profile_id = 1, recipient = None, topic = '''', content = ''hello'',
             last_edit_time = 10\<rparr>)]))"
    by code_simp+
  have ed: "edit_draft ?E 4 sample_request alice_on db_created =
      (case REQ_draft ?E sample_request of
           Inl e \<Rightarrow> (Inl e, db_created)
         | Inr draft_dict \<Rightarrow>
             (case do_edit_draft ?E 4 draft_dict alice_on db_created of
                (Inl (JsonableError err), d') \<Rightarrow> (Inr (json_error err 404), d')
              | (Inl e, d') \<Rightarrow> (Inl e, d')
              | (Inr _, d') \<Rightarrow> (Inr (json_success NoData), d')))"
    using open_created [where env = ?E and draft_id = 4] by blast
  have de: "delete_draft 5 sample_request alice_on db_created =
      (case do_delete_draft 5 alice_on db_created of
           (Inl (JsonableError err), d') \<Rightarrow> (Inr (json_error err 404), d')
         | (Inl e, d') \<Rightarrow> (Inl e, d')
         | (Inr _, d') \<Rightarrow> (Inr (json_success NoData), d'))"
    using open_created [where env = sample_env and draft_id = 5] by blast
  have ed1: "fst (case REQ_draft ?E sample_request of
           Inl e \<Rightarrow> (Inl e, db_created)
         | Inr draft_dict \<Rightarrow>
             (case do_edit_draft ?E 4 draft_dict alice_on db_created of
                (Inl (JsonableError err), d') \<Rightarrow> (Inr (json_error err 404), d')
              | (Inl e, d') \<Rightarrow> (Inl e, d')
              | (Inr _, d') \<Rightarrow> (Inr (json_success NoData), d'))) =
      Inr (json_success NoData)"
    and ed2: "drafts (snd (case REQ_draft ?E sample_request of
           Inl e \<Rightarrow> (Inl e, db_created)
         | Inr draft_dict \<Rightarrow>
             (case do_edit_draft ?E 4 draft_dict alice_on db_created of
                (Inl (JsonableError err), d') \<Rightarrow> (Inr (json_error err 404), d')
              | (Inl e, d') \<Rightarrow> (Inl e, d')
              | (Inr _, d') \<Rightarrow> (Inr (json_success NoData), d')))) =
     [(2, \<lparr>user_profile_id = 2, recipient = Some 50, topic = ''t'', content = ''bye'',
           last_edit_time = 20\<rparr>),
      (4, \<lparr>user_profile_id = 1, recipient = None, topic = '''', content = ''hi'',
           last_edit_time = 1600000000 + 1 / 4\<rparr>),
      (5, \<lparr>user_profile_id = 1, recipient = Some 102, topic = '''', content = ''hi'',
           last_edit_time = 7\<rparr>),
      (6, \<lparr>user_profile_id = 1, recipient = None, topic = '''', content = ''hi'',
           last_edit_time = 0\<rparr>)]"
    and de1: "fst (case do_delete_draft 5 alice_on db_created of
           (Inl (JsonableError err), d') \<Rightarrow> (Inr (json_error err 404), d')
         | (Inl e, d') \<Rightarrow> (Inl e, d')
         | (Inr _, d') \<Rightarrow> (Inr (json_success NoData), d')) =
      Inr (json_success NoData)"
    and de2: "drafts (snd (case do_delete_draft 5 alice_on db_created of
           (Inl (JsonableError err), d') \<Rightarrow> (Inr (json_error err 404), d')
         | (Inl e, d') \<Rightarrow> (Inl e, d')
         | (Inr _, d') \<Rightarrow> (Inr (json_success NoData), d'))) =
     [(2, \<lparr>user_profile_id = 2, recipient = Some 50, topic = ''t'', content = ''bye'',
           last_edit_time = 20\<rparr>),
      (4, \<lparr>user_profile_id = 1, recipient = None, topic = '''', content = ''hi'',
           last_edit_time = 1600000000\<rparr>),
      (6, \<lparr>user_profile_id = 1, recipient = None, topic = '''', content = ''hi'',
           last_edit_time = 0\<rparr>)]"
    by code_simp+
  note w = ed1 [folded ed] ed2 [folded ed] de1 [folded de] de2 [folded de]
  show ?thesis
    using off row gate on row_on v1 v2 ev w by blast
qed

subsection \<open>The outcomes of the edit view\<close>

lemma edit_draft_view:
  assumes "enable_drafts_synchronization u" and "REQ_draft env req = Inr draft_dict"
  shows "do_edit_draft env draft_id draft_dict u d = (Inl (JsonableError m), d') \<Longrightarrow>
      edit_draft env draft_id req u d = (Inr (json_error m 404), d')"
    and "do_edit_draft env draft_id draft_dict u d = (Inr (), d') \<Longrightarrow>
      edit_draft env draft_id req u d = (Inr (json_success NoData), d')"
  using assms by (simp_all add: edit_draft_def draft_endpoint_def)

lemma do_edit_draft_validation_error:
  assumes "Draft_objects_get draft_id u d = Inr obj"
    and "further_validated_draft_dict env draft_dict u = Inl e"
  shows "do_edit_draft env draft_id draft_dict u d = (Inl e, d)"
  using assms by (cases obj) (simp add: do_edit_draft_def)

lemma do_edit_draft_not_found:
  assumes "Draft_objects_get draft_id u d = Inl DoesNotExist"
  shows "do_edit_draft env draft_id draft_dict u d =
    (Inl (JsonableError ''Draft does not exist''), d)"
  using assms by (simp add: do_edit_draft_def)

text \<open>
  C8 does not hold of the edit view. For a draft that exists and belongs to the acting
  user, a payload whose content carries a null byte, or whose timestamp is negative,
  is answered with status 404, the status of the answer for a draft that does not
  exist: the \<^verbatim>\<open>except JsonableError\<close> clause of the view catches the validation errors
  of \<^verbatim>\<open>do_edit_draft\<close> together with its not-found error. In the create view the same
  validation error is raised as it is.
\<close>

theorem edit_validation_failure_answered_404:
  "Draft_objects_get 1 alice sample_db =
     Inr (1, \<lparr>user_profile_id = 1, recipient = None, topic = '''', content = ''hello'',
              last_edit_time = 10\<rparr>) \<and>
   do_edit_draft sample_env 1 null_before_cut alice sample_db =
     (Inl (JsonableError ''Content must not contain null bytes''), sample_db) \<and>
   edit_draft (sample_env\<lparr>REQ_draft := \<lambda>r. Inr null_before_cut\<rparr>) 1 sample_request alice
       sample_db =
     (Inr (json_error ''Content must not contain null bytes'' 404), sample_db) \<and>
   edit_draft (sample_env\<lparr>REQ_draft := \<lambda>r. Inr negative_timestamp\<rparr>) 1 sample_request alice
       sample_db =
     (Inr (json_error ''Timestamp must not be negative.'' 404), sample_db) \<and>
   edit_draft (sample_env\<lparr>REQ_draft := \<lambda>r. Inr private_no_recipient\<rparr>) 99 sample_request
       alice sample_db =
     (Inr (json_error ''Draft does not exist'' 404), sample_db) \<and>
   create_drafts (sample_env\<lparr>REQ_drafts := \<lambda>r. Inr [null_before_cut]\<rparr>) sample_request alice
       sample_db =
     (Inl (JsonableError ''Content must not contain null bytes''), sample_db)"
proof -
  let ?row = "\<lparr>user_profile_id = 1, recipient = None, topic = '''', content = ''hello'',
              last_edit_time = 10\<rparr>"
  have en: "enable_drafts_synchronization alice" by (simp add: alice_def)
  have get: "Draft_objects_get 1 alice sample_db = Inr (1, ?row)"
    by (simp add: Draft_objects_get_def sample_db_def alice_def)
  have absent: "Draft_objects_get 99 alice sample_db = Inl DoesNotExist"
    by (simp add: Draft_objects_get_def sample_db_def alice_def)
  have v1: "further_validated_draft_dict
       (sample_env\<lparr>REQ_draft := \<lambda>r. Inr null_before_cut\<rparr>) null_before_cut alice =
      Inl (JsonableError ''Content must not contain null bytes'')"
    and v1': "further_validated_draft_dict sample_env null_before_cut alice =
      Inl (JsonableError ''Content must not contain null bytes'')"
    and v1'': "further_validated_draft_dict
       (sample_env\<lparr>REQ_drafts := \<lambda>r. Inr [null_before_cut]\<rparr>) null_before_cut alice =
      Inl (JsonableError ''Content must not contain null bytes'')"
    and v2: "further_validated_draft_dict
       (sample_env\<lparr>REQ_draft := \<lambda>r. Inr negative_timestamp\<rparr>) negative_timestamp alice =
      Inl (JsonableError ''Timestamp must not be negative.'')"
    by code_simp+
  have e1: "edit_draft (sample_env\<lparr>REQ_draft := \<lambda>r. Inr null_before_cut\<rparr>) 1 sample_request
       alice sample_db =
     (Inr (json_error ''Content must not contain null bytes'' 404), sample_db)"
    by (rule edit_draft_view(1) [OF en _ do_edit_draft_validation_error [OF get v1]]) simp
  have e2: "edit_draft (sample_env\<lparr>REQ_draft := \<lambda>r. Inr negative_timestamp\<rparr>) 1
       sample_request alice sample_db =
     (Inr (json_error ''Timestamp must not be negative.'' 404), sample_db)"
    by (rule edit_draft_view(1) [OF en _ do_edit_draft_validation_error [OF get v2]]) simp
  have e3: "edit_draft (sample_env\<lparr>REQ_draft := \<lambda>r. Inr private_no_recipient\<rparr>) 99
       sample_request alice sample_db =
     (Inr (json_error ''Draft does not exist'' 404), sample_db)"
    by (rule edit_draft_view(1) [OF en _ do_edit_draft_not_found [OF absent]]) simp
  have c: "create_drafts (sample_env\<lparr>REQ_drafts := \<lambda>r. Inr [null_before_cut]\<rparr>)
       sample_request alice sample_db =
     (Inl (JsonableError ''Content must not contain null bytes''), sample_db)"
  proof -
    have "create_loop (sample_env\<lparr>REQ_drafts := \<lambda>r. Inr [null_before_cut]\<rparr>) alice
        [null_before_cut] [] = Inl (JsonableError ''Content must not contain null bytes'')"
      by (simp add: v1'')
    then have "do_create_drafts (sample_env\<lparr>REQ_drafts := \<lambda>r. Inr [null_before_cut]\<rparr>)
        [null_before_cut] alice sample_db =
        (Inl (JsonableError ''Content must not contain null bytes''), sample_db)"
      by (rule do_create_drafts_Inl)
    moreover have "REQ_drafts (sample_env\<lparr>REQ_drafts := \<lambda>r. Inr [null_before_cut]\<rparr>)
        sample_request = Inr [null_before_cut]"
      by simp
    ultimately show ?thesis
      using en by (simp add: create_drafts_view(1))
  qed
  show ?thesis
    using get do_edit_draft_validation_error [OF get v1'] e1 e2 e3 c by blast
qed

subsection \<open>Primary keys stay unique\<close>

text \<open>
  The operations keep the guarantee that the theorem on lookups assumes: no operation
  of the two files gives two rows of the draft table the same id.
\<close>

lemma primary_keys_ok_bulk_create:
  assumes "primary_keys_ok d"
  shows "primary_keys_ok (snd (Draft_objects_bulk_create draft_objects d))"
proof -
  let ?ids = "map (\<lambda>k. next_id d + int k) [0 ..< length draft_objects]"
  have ids: "map fst (zip ?ids draft_objects) = ?ids" by simp
  have "distinct ?ids" by (simp add: distinct_map inj_on_def)
  moreover have "set (map fst (drafts d)) \<inter> set ?ids = {}"
    using assms by (fastforce simp add: primary_keys_ok_def)
  ultimately have "distinct (map fst (drafts d) @ ?ids)"
    using assms by (simp add: primary_keys_ok_def)
  moreover have "\<forall>i\<in>set (map fst (drafts d) @ ?ids). i < next_id d + int (length draft_objects)"
    using assms by (fastforce simp add: primary_keys_ok_def)
  ultimately show ?thesis
    unfolding primary_keys_ok_def Draft_objects_bulk_create_def Let_def
    by (simp only: snd_conv db.simps map_append ids) simp
qed

lemma primary_keys_ok_save:
  "primary_keys_ok d \<Longrightarrow> primary_keys_ok (Draft_save obj d)"
proof -
  have "fst \<circ> (\<lambda>(i, r). if i = fst obj then obj else (i, r)) = fst"
    by (auto simp add: fun_eq_iff)
  then show "primary_keys_ok d \<Longrightarrow> primary_keys_ok (Draft_save obj d)"
    by (simp add: primary_keys_ok_def Draft_save_def)
qed

lemma primary_keys_ok_filter:
  assumes "primary_keys_ok d"
  shows "primary_keys_ok (d\<lparr>drafts := filter P (drafts d)\<rparr>)"
  using assms by (auto simp add: primary_keys_ok_def distinct_map_filter)

lemma primary_keys_ok_users:
  "primary_keys_ok (d\<lparr>users := us\<rparr>) = primary_keys_ok d"
  by (simp add: primary_keys_ok_def)

lemma primary_keys_ok_do_create_drafts:
  "primary_keys_ok d \<Longrightarrow> primary_keys_ok (snd (do_create_drafts env draft_dicts u d))"
  using primary_keys_ok_bulk_create [of d]
  by (simp add: do_create_drafts_def split_beta split: sum.splits)

lemma primary_keys_ok_do_edit_draft:
  "primary_keys_ok d \<Longrightarrow> primary_keys_ok (snd (do_edit_draft env draft_id draft_dict u d))"
  by (auto simp add: do_edit_draft_def primary_keys_ok_save
      split: sum.splits error.splits prod.splits)

lemma primary_keys_ok_do_delete_draft:
  "primary_keys_ok d \<Longrightarrow> primary_keys_ok (snd (do_delete_draft draft_id u d))"
  by (auto simp add: do_delete_draft_def Draft_delete_def primary_keys_ok_filter
      split: sum.splits error.splits)

lemma primary_keys_ok_toggles:
  assumes "primary_keys_ok d"
  shows "primary_keys_ok (snd (snd (do_enable_drafts_syncing u d)))"
    and "primary_keys_ok (snd (snd (do_disable_drafts_syncing u d)))"
proof -
  show "primary_keys_ok (snd (snd (do_enable_drafts_syncing u d)))"
    using assms
    by (cases "users d (user_id u)")
       (simp_all add: do_enable_drafts_syncing_def user_profile_save_update_fields_def
          primary_keys_ok_users)
  show "primary_keys_ok (snd (snd (do_disable_drafts_syncing u d)))"
  proof (cases "users d (user_id u)")
    case None
    then show ?thesis
      using assms
      by (simp add: do_disable_drafts_syncing_def user_profile_save_update_fields_def)
  next
    case (Some row)
    then show ?thesis
      using assms
      by (auto simp add: do_disable_drafts_syncing_def user_profile_save_update_fields_def
          Draft_objects_filter_delete_def primary_keys_ok_def distinct_map_filter)
  qed
qed

lemma primary_keys_ok_sample_db: "primary_keys_ok sample_db"
  by (simp add: primary_keys_ok_def sample_db_def)

lemma primary_keys_ok_distinct:
  "primary_keys_ok d \<Longrightarrow> distinct (map fst (drafts d))"
  by (simp add: primary_keys_ok_def)

end
